theory Spec2Isabelle
  imports Main
begin

section \<open>The entry formatter of the Log class\<close>

text \<open>
  The repository holds two revisions of the class \<open>Log\<close>: \<^verbatim>\<open>src/classes/Log.js\<close>
  (options \<open>autoClose\<close>, \<open>autoCreate\<close>, \<open>autoOpen\<close>, \<open>truncate\<close>, a \<open>raw\<close> formatter flag and a
  \<open>write\<close> method) and \<^verbatim>\<open>src/unnamed/part_000\<close> (private fields, validated options
  \<open>automaticClose\<close>, \<open>automaticCreate\<close>, \<open>automaticOpen\<close>, a \<open>logger\<close>). Both are embedded. The
  definitions of \<^verbatim>\<open>src/classes/Log.js\<close> carry the source's names; those of
  \<^verbatim>\<open>src/unnamed/part_000\<close> carry the suffix \<open>_p\<close>.

  Strings are lists of characters, restricted to ASCII where letter case matters.
\<close>

subsection \<open>JavaScript string primitives used by the formatter\<close>

definition ESC :: char where
  "ESC = CHR 0x1B"

text \<open>\<open>String.prototype.padStart(targetLength, padString)\<close> and \<open>padEnd\<close>: a string that is
  long enough, or an empty pad string, leaves the text as it is; otherwise the pad string is
  repeated and cut to the missing length.\<close>

definition filler :: "nat \<Rightarrow> string \<Rightarrow> string" where
  "filler n p = take n (concat (replicate n p))"

definition padStart :: "string \<Rightarrow> nat \<Rightarrow> string \<Rightarrow> string" where
  "padStart s n p = (if n \<le> length s \<or> p = [] then s else filler (n - length s) p @ s)"

definition padEnd :: "string \<Rightarrow> nat \<Rightarrow> string \<Rightarrow> string" where
  "padEnd s n p = (if n \<le> length s \<or> p = [] then s else s @ filler (n - length s) p)"

text \<open>\<open>String.prototype.toUpperCase\<close> on ASCII text.\<close>

definition upper_char :: "char \<Rightarrow> char" where
  "upper_char c =
     (case map_of (zip ''abcdefghijklmnopqrstuvwxyz'' ''ABCDEFGHIJKLMNOPQRSTUVWXYZ'') c of
        Some u \<Rightarrow> u
      | None \<Rightarrow> c)"

definition toUpperCase :: "string \<Rightarrow> string" where
  "toUpperCase s = map upper_char s"

text \<open>\<open>Array.prototype.join(separator)\<close> on an array of strings.\<close>

fun join :: "string \<Rightarrow> string list \<Rightarrow> string" where
  "join sep [] = []"
| "join sep [x] = x"
| "join sep (x # y # ys) = x @ sep @ join sep (y # ys)"

text \<open>Decimal rendering of an integer, as a template literal renders an integral number.\<close>

definition digit_char :: "nat \<Rightarrow> char" where
  "digit_char d = ''0123456789'' ! (d mod 10)"

function string_of_nat :: "nat \<Rightarrow> string" where
  "string_of_nat n = (if n < 10 then [digit_char n] else string_of_nat (n div 10) @ [digit_char n])"
  by pat_completeness auto
termination
  by (relation "measure id") auto

declare string_of_nat.simps [simp del]

definition string_of_int :: "int \<Rightarrow> string" where
  "string_of_int i = (if i < 0 then CHR ''-'' # string_of_nat (nat (- i)) else string_of_nat (nat i))"

subsection \<open>Style codes\<close>

text \<open>A style code is a number or a string; an element of a styling array is one code or an
  array of codes; a styling option is (in \<^verbatim>\<open>part_000\<close>) one code or an array of elements.\<close>

datatype code = Num int | Str string

datatype style = Single code | Group "code list"

datatype styling = Scalar code | Styles "style list"

fun code_text :: "code \<Rightarrow> string" where
  "code_text (Num i) = string_of_int i"
| "code_text (Str s) = s"

text \<open>The arrow function \<^verbatim>\<open>u => `\x1b[${Array.isArray(u) ? u.join(";") : u}m`\<close>.\<close>

fun directive :: "style \<Rightarrow> string" where
  "directive (Single c) = [ESC, CHR ''[''] @ code_text c @ ''m''"
| "directive (Group cs) = [ESC, CHR ''[''] @ join '';'' (map code_text cs) @ ''m''"

definition reset :: string where
  "reset = [ESC, CHR ''[''] @ ''0m''"

subsection \<open>Formatter options\<close>

record fmt_options =
  dateTime :: int
  dateTimeAlignment :: string
  dateTimeFormatter :: "int \<Rightarrow> string"
  dateTimeMinimumWidth :: nat
  dateTimePadding :: string
  dateTimeStyling :: styling
  end_opt :: string
  message :: string
  messageStyling :: styling
  raw :: bool
  separator :: string
  separatorStyling :: styling
  title :: string
  titleAlignment :: string
  titleMinimumWidth :: nat
  titlePadding :: string
  titleStyling :: styling

text \<open>The options object a caller passes holds any subset of the keys; it is a list of
  key/value entries, a later entry of a key overriding an earlier one.\<close>

datatype fmt_entry =
    DateTime int
  | DateTimeAlignment string
  | DateTimeFormatter "int \<Rightarrow> string"
  | DateTimeMinimumWidth nat
  | DateTimePadding string
  | DateTimeStyling styling
  | End string
  | Message string
  | MessageStyling styling
  | Raw bool
  | Separator string
  | SeparatorStyling styling
  | Title string
  | TitleAlignment string
  | TitleMinimumWidth nat
  | TitlePadding string
  | TitleStyling styling

fun set_entry :: "fmt_options \<Rightarrow> fmt_entry \<Rightarrow> fmt_options" where
  "set_entry p (DateTime v) = p\<lparr>dateTime := v\<rparr>"
| "set_entry p (DateTimeAlignment v) = p\<lparr>dateTimeAlignment := v\<rparr>"
| "set_entry p (DateTimeFormatter v) = p\<lparr>dateTimeFormatter := v\<rparr>"
| "set_entry p (DateTimeMinimumWidth v) = p\<lparr>dateTimeMinimumWidth := v\<rparr>"
| "set_entry p (DateTimePadding v) = p\<lparr>dateTimePadding := v\<rparr>"
| "set_entry p (DateTimeStyling v) = p\<lparr>dateTimeStyling := v\<rparr>"
| "set_entry p (End v) = p\<lparr>end_opt := v\<rparr>"
| "set_entry p (Message v) = p\<lparr>message := v\<rparr>"
| "set_entry p (MessageStyling v) = p\<lparr>messageStyling := v\<rparr>"
| "set_entry p (Raw v) = p\<lparr>raw := v\<rparr>"
| "set_entry p (Separator v) = p\<lparr>separator := v\<rparr>"
| "set_entry p (SeparatorStyling v) = p\<lparr>separatorStyling := v\<rparr>"
| "set_entry p (Title v) = p\<lparr>title := v\<rparr>"
| "set_entry p (TitleAlignment v) = p\<lparr>titleAlignment := v\<rparr>"
| "set_entry p (TitleMinimumWidth v) = p\<lparr>titleMinimumWidth := v\<rparr>"
| "set_entry p (TitlePadding v) = p\<lparr>titlePadding := v\<rparr>"
| "set_entry p (TitleStyling v) = p\<lparr>titleStyling := v\<rparr>"

text \<open>\<open>Object.assign(defaults, Object(options))\<close>.\<close>

definition assign_fmt :: "fmt_options \<Rightarrow> fmt_entry list \<Rightarrow> fmt_options" where
  "assign_fmt dflt opts = foldl set_entry dflt opts"

text \<open>What the formatter reads from outside: the clock (\<open>Date.now()\<close>) and the static
  \<open>Log.defaultDateTimeFormatter\<close>, an \<open>Intl.DateTimeFormat\<close> of the platform.\<close>

record host =
  now :: int
  defaultDateTimeFormatter :: "int \<Rightarrow> string"

datatype error = Error string | TypeError string | SystemError string

subsection \<open>\<open>Log.defaultFormatter\<close> of \<^verbatim>\<open>src/classes/Log.js\<close>\<close>

definition defaults :: "host \<Rightarrow> fmt_options" where
  "defaults h =
     \<lparr> dateTime = now h,
       dateTimeAlignment = ''LEFT'',
       dateTimeFormatter = defaultDateTimeFormatter h,
       dateTimeMinimumWidth = 25,
       dateTimePadding = '' '',
       dateTimeStyling = Styles [Single (Num 94), Single (Num 1)],
       end_opt = [CHR 0x0A],
       message = ''MESSAGE'',
       messageStyling = Styles [Single (Num 92)],
       raw = True,
       separator = '' | '',
       separatorStyling = Styles [Single (Num 90), Single (Num 1)],
       title = ''TITLE'',
       titleAlignment = ''LEFT'',
       titleMinimumWidth = 20,
       titlePadding = '' '',
       titleStyling = Styles [Single (Num 93), Single (Num 1)] \<rparr>"

definition parsedDateTime :: "fmt_options \<Rightarrow> string" where
  "parsedDateTime p =
     (if toUpperCase (dateTimeAlignment p) = ''RIGHT''
      then padStart (dateTimeFormatter p (dateTime p)) (dateTimeMinimumWidth p) (dateTimePadding p)
      else padEnd (dateTimeFormatter p (dateTime p)) (dateTimeMinimumWidth p) (dateTimePadding p))"

definition parsedTitle :: "fmt_options \<Rightarrow> string" where
  "parsedTitle p =
     (if toUpperCase (titleAlignment p) = ''RIGHT''
      then padStart (title p) (titleMinimumWidth p) (titlePadding p)
      else padEnd (title p) (titleMinimumWidth p) (titlePadding p))"

text \<open>One element of the array mapped in the styled branch:
  \<^verbatim>\<open>v.styles.map(u => ...).join("") + v.text + "\x1b[0m"\<close>. A styling that is not an array has
  no \<open>map\<close> method, so the call raises a \<open>TypeError\<close>.\<close>

fun styled :: "styling \<Rightarrow> string \<Rightarrow> error + string" where
  "styled (Styles us) text = Inr (concat (map directive us) @ text @ reset)"
| "styled (Scalar c) text = Inl (TypeError ''v.styles.map is not a function'')"

definition format_parsed :: "fmt_options \<Rightarrow> error + string" where
  "format_parsed p =
     (if raw p then Inr (join (separator p) [parsedDateTime p, parsedTitle p, message p] @ end_opt p)
      else
        (case styled (dateTimeStyling p) (parsedDateTime p) of Inl e \<Rightarrow> Inl e
         | Inr styledDateTime \<Rightarrow>
        (case styled (titleStyling p) (parsedTitle p) of Inl e \<Rightarrow> Inl e
         | Inr styledTitle \<Rightarrow>
        (case styled (messageStyling p) (message p) of Inl e \<Rightarrow> Inl e
         | Inr styledMessage \<Rightarrow>
        (case styled (separatorStyling p) (separator p) of Inl e \<Rightarrow> Inl e
         | Inr styledSeparator \<Rightarrow>
            Inr (join styledSeparator [styledDateTime, styledTitle, styledMessage] @ end_opt p))))))"

definition defaultFormatter :: "host \<Rightarrow> fmt_entry list \<Rightarrow> error + string" where
  "defaultFormatter h opts = format_parsed (assign_fmt (defaults h) opts)"

subsection \<open>\<open>Log.defaultFormatter\<close> of \<^verbatim>\<open>src/unnamed/part_000\<close>\<close>

text \<open>This revision has no key \<open>raw\<close>: the field is carried by the record and never read.\<close>

definition defaults_p :: "host \<Rightarrow> fmt_options" where
  "defaults_p h =
     \<lparr> dateTime = now h,
       dateTimeAlignment = ''LEFT'',
       dateTimeFormatter = defaultDateTimeFormatter h,
       dateTimeMinimumWidth = 25,
       dateTimePadding = '' '',
       dateTimeStyling = Styles [Single (Num 1), Single (Num 94)],
       end_opt = [CHR 0x0A],
       message = ''MESSAGE'',
       messageStyling = Scalar (Num 92),
       raw = False,
       separator = '' | '',
       separatorStyling = Styles [Single (Num 1), Single (Num 90)],
       title = ''TITLE'',
       titleAlignment = ''LEFT'',
       titleMinimumWidth = 20,
       titlePadding = '' '',
       titleStyling = Styles [Single (Num 1), Single (Num 93)] \<rparr>"

definition dateTime_p :: "fmt_options \<Rightarrow> string" where
  "dateTime_p p =
     (if dateTimeAlignment p = ''RIGHT''
      then padStart (dateTimeFormatter p (dateTime p)) (dateTimeMinimumWidth p) (dateTimePadding p)
      else padEnd (dateTimeFormatter p (dateTime p)) (dateTimeMinimumWidth p) (dateTimePadding p))"

definition title_p :: "fmt_options \<Rightarrow> string" where
  "title_p p =
     (if titleAlignment p = ''RIGHT''
      then padStart (title p) (titleMinimumWidth p) (titlePadding p)
      else padEnd (title p) (titleMinimumWidth p) (titlePadding p))"

text \<open>One element of the mapped array: the opening directives of an array styling (or the one
  directive of a scalar styling), the text, and the reset sequence unless the styling is an
  empty array.\<close>

fun styled_p :: "styling \<Rightarrow> string \<Rightarrow> string" where
  "styled_p (Styles ws) text = concat (map directive ws) @ text @ (if ws = [] then [] else reset)"
| "styled_p (Scalar c) text = [ESC, CHR ''[''] @ code_text c @ ''m'' @ text @ reset"

definition format_parsed_p :: "fmt_options \<Rightarrow> string" where
  "format_parsed_p p =
     join (styled_p (separatorStyling p) (separator p))
       [styled_p (dateTimeStyling p) (dateTime_p p),
        styled_p (titleStyling p) (title_p p),
        styled_p (messageStyling p) (message p)] @ end_opt p"

text \<open>The first argument is the test \<^verbatim>\<open>this instanceof Log\<close>: the function must be called on
  an instance.\<close>

definition defaultFormatter_p :: "bool \<Rightarrow> host \<Rightarrow> fmt_entry list \<Rightarrow> error + string" where
  "defaultFormatter_p this_instanceof_Log h opts =
     (if \<not> this_instanceof_Log
      then Inl (TypeError ''Please bind this function to an instance of the log'')
      else Inr (format_parsed_p (assign_fmt (defaults_p h) opts)))"

section \<open>The platform: paths, the filesystem, write streams, events\<close>

text \<open>
  The modules \<open>node:path\<close>, \<open>node:fs\<close> and \<open>node:events\<close> are not code of the repository. They
  are modelled on a POSIX host, as far as the class uses them. An absolute, normalized path is
  the list of its segments (the root is the empty list). The synchronous calls (\<open>existsSync\<close>,
  \<open>mkdirSync\<close>, \<open>openSync\<close>, \<open>readFileSync\<close>, \<open>unlinkSync\<close>) are applied when they return. A
  write stream works on later turns of the event loop: what it has handed to the platform is
  kept in the world as pending operations, and \<open>settle\<close> lets the event loop run until nothing
  is pending.
\<close>

type_synonym path = "string list"

fun split_slash :: "string \<Rightarrow> string list" where
  "split_slash [] = [[]]"
| "split_slash (c # cs) =
     (if c = CHR ''/'' then [] # split_slash cs
      else (case split_slash cs of [] \<Rightarrow> [[c]] | seg # segs \<Rightarrow> (c # seg) # segs))"

definition enter :: "path \<Rightarrow> string \<Rightarrow> path" where
  "enter p seg = (if seg = [] \<or> seg = ''.'' then p else if seg = ''..'' then butlast p else p @ [seg])"

text \<open>\<open>path.resolve(cwd, input)\<close>: an input that starts with a slash is resolved from the root,
  any other from the working directory; empty and \<open>.\<close> segments vanish, \<open>..\<close> goes up.\<close>

definition resolve :: "path \<Rightarrow> string \<Rightarrow> path" where
  "resolve wd input =
     foldl enter (case input of [] \<Rightarrow> wd | c # cs \<Rightarrow> if c = CHR ''/'' then [] else wd)
       (split_slash input)"

definition dirname :: "path \<Rightarrow> path" where
  "dirname p = butlast p"

datatype event = Emit string | EmitText string string

text \<open>An operation that a stream has handed to the platform; it completes whatever happens to
  the stream afterwards.\<close>

datatype io = OpenW path | WriteBytes path string

text \<open>The content of a file is a sequence of bytes. \<open>decode\<close> is \<open>Buffer.prototype.toString()\<close>
  (UTF-8 decoding, ill-formed bytes replaced) and \<open>encode\<close> the encoding of a string that is
  written to a stream; both are the platform's and are taken as given.\<close>

record world =
  files :: "path \<rightharpoonup> string"
  dirs :: "path set"
  cwd :: path
  emitted :: "event list"
  pending :: "io list"
  decode :: "string \<Rightarrow> string"
  encode :: "string \<Rightarrow> string"

definition chdir :: "path \<Rightarrow> world \<Rightarrow> world" where
  "chdir d w = w\<lparr>cwd := d\<rparr>"

definition existsSync :: "path \<Rightarrow> world \<Rightarrow> bool" where
  "existsSync p w = (case files w p of Some c \<Rightarrow> True | None \<Rightarrow> p \<in> dirs w)"

definition ancestors :: "path \<Rightarrow> path list" where
  "ancestors d = map (\<lambda>n. take n d) [0..<Suc (length d)]"

text \<open>\<open>fs.mkdirSync(d, {recursive})\<close>, called on a path that does not exist.\<close>

definition mkdirSync :: "path \<Rightarrow> bool \<Rightarrow> world \<Rightarrow> error + world" where
  "mkdirSync d recursive_flag w =
     (if recursive_flag
      then (if list_ex (\<lambda>a. case files w a of Some c \<Rightarrow> True | None \<Rightarrow> False) (ancestors d)
            then Inl (SystemError ''ENOTDIR'')
            else Inr (w\<lparr>dirs := dirs w \<union> set (ancestors d)\<rparr>))
      else if existsSync d w then Inl (SystemError ''EEXIST'')
      else if dirname d \<in> dirs w then Inr (w\<lparr>dirs := insert d (dirs w)\<rparr>)
      else Inl (SystemError ''ENOENT''))"

text \<open>\<open>fs.openSync(p, "w+")\<close>: creates the file, or empties it.\<close>

definition openSync :: "path \<Rightarrow> world \<Rightarrow> error + world" where
  "openSync p w =
     (case files w p of
        Some c \<Rightarrow> Inr (w\<lparr>files := (files w)(p \<mapsto> [])\<rparr>)
      | None \<Rightarrow>
          if p \<in> dirs w then Inl (SystemError ''EISDIR'')
          else if dirname p \<in> dirs w then Inr (w\<lparr>files := (files w)(p \<mapsto> [])\<rparr>)
          else Inl (SystemError ''ENOENT''))"

definition readFileSync :: "path \<Rightarrow> world \<Rightarrow> error + string" where
  "readFileSync p w =
     (case files w p of Some c \<Rightarrow> Inr c
      | None \<Rightarrow> Inl (SystemError (if p \<in> dirs w then ''EISDIR'' else ''ENOENT'')))"

definition unlinkSync :: "path \<Rightarrow> world \<Rightarrow> error + world" where
  "unlinkSync p w =
     (case files w p of Some c \<Rightarrow> Inr (w\<lparr>files := (files w)(p := None)\<rparr>)
      | None \<Rightarrow> Inl (SystemError (if p \<in> dirs w then ''EISDIR'' else ''ENOENT'')))"

text \<open>A write stream remembers the path it was made for, whether it has been destroyed, whether
  its file has been opened, whether a write of its own is with the platform, and the chunks
  it holds back.

  \<open>fs.createWriteStream(p)\<close> returns the stream at once and hands the open (flag \<open>w\<close>: create
  or empty the file) to the platform; no file changes during the call.\<close>

record wstream =
  target :: path
  destroyed :: bool
  opened :: bool
  writing :: bool
  queued :: "string list"

definition createWriteStream :: "path \<Rightarrow> world \<Rightarrow> wstream \<times> world" where
  "createWriteStream p w =
     (\<lparr>target = p, destroyed = False, opened = False, writing = False, queued = []\<rparr>,
      w\<lparr>pending := pending w @ [OpenW p]\<rparr>)"

text \<open>\<open>stream.write(text)\<close>: a stream that is open and idle hands the chunk to the platform;
  any other stream holds it back (a destroyed stream takes nothing). \<open>written\<close> is the stream
  after the call, \<open>stream_write\<close> the world after it.\<close>

definition written :: "wstream \<Rightarrow> string \<Rightarrow> wstream" where
  "written st text =
     (if destroyed st then st
      else if opened st \<and> \<not> writing st then st\<lparr>writing := True\<rparr>
      else st\<lparr>queued := queued st @ [text]\<rparr>)"

definition stream_write :: "wstream \<Rightarrow> string \<Rightarrow> world \<Rightarrow> world" where
  "stream_write st text w =
     (if destroyed st then w
      else if opened st \<and> \<not> writing st
           then w\<lparr>pending := pending w @ [WriteBytes (target st) (encode w text)]\<rparr>
      else w)"

text \<open>\<open>stream.destroy()\<close>: the chunks held back are dropped with the stream; what is with the
  platform already (the open, a write) still completes.\<close>

definition destroy :: "wstream \<Rightarrow> wstream" where
  "destroy st = st\<lparr>destroyed := True\<rparr>"

text \<open>The platform completes an operation: an open with the flag \<open>w\<close> creates the file or
  empties it (where it cannot, no file changes); a write appends its bytes.\<close>

fun perform :: "world \<Rightarrow> io \<Rightarrow> world" where
  "perform w (OpenW p) =
     (case files w p of
        Some c \<Rightarrow> w\<lparr>files := (files w)(p \<mapsto> [])\<rparr>
      | None \<Rightarrow>
          if p \<in> dirs w then w
          else if dirname p \<in> dirs w then w\<lparr>files := (files w)(p \<mapsto> [])\<rparr>
          else w)"
| "perform w (WriteBytes p bytes) =
     (case files w p of
        Some c \<Rightarrow> w\<lparr>files := (files w)(p \<mapsto> c @ bytes)\<rparr>
      | None \<Rightarrow> w)"

definition run_pending :: "world \<Rightarrow> world" where
  "run_pending w = (foldl perform w (pending w))\<lparr>pending := []\<rparr>"

text \<open>Once the pending operations are done, a stream that has not been destroyed is open and
  writes the chunks it held back.\<close>

definition flush :: "wstream \<Rightarrow> world \<Rightarrow> world" where
  "flush st w =
     (if destroyed st then w
      else perform w (WriteBytes (target st) (concat (map (encode w) (queued st)))))"

definition settled :: "wstream \<Rightarrow> wstream" where
  "settled st =
     (if destroyed st then st\<lparr>writing := False\<rparr>
      else st\<lparr>opened := True, writing := False, queued := []\<rparr>)"

text \<open>A call either returns or throws; the state it leaves behind is kept in both cases.\<close>

datatype 's outcome = Returned 's | Threw error 's

fun and_then :: "'s outcome \<Rightarrow> ('s \<Rightarrow> 's outcome) \<Rightarrow> 's outcome" where
  "and_then (Returned s) f = f s"
| "and_then (Threw e s) f = Threw e s"

fun state_of :: "'s outcome \<Rightarrow> 's" where
  "state_of (Returned s) = s"
| "state_of (Threw e s) = s"

section \<open>The class Log of \<^verbatim>\<open>src/classes/Log.js\<close>\<close>

text \<open>The options of an instance; \<open>'p\<close> is the type of a formatter parameter. The array
  \<open>formatterParameters\<close> is a reference into the heap of arrays, since \<open>Object.assign\<close> copies the
  reference, not the array.\<close>

record 'p options =
  autoClose :: bool
  autoCreate :: bool
  autoOpen :: bool
  file_opt :: string
  formatter :: "'p list \<Rightarrow> error + string"
  formatterParameters :: nat
  recursive :: bool
  truncate_opt :: bool

datatype 'p option_entry =
    AutoClose bool
  | AutoCreate bool
  | AutoOpen bool
  | File string
  | Formatter "'p list \<Rightarrow> error + string"
  | FormatterParameters nat
  | Recursive bool
  | Truncate bool

fun set_option :: "'p options \<Rightarrow> 'p option_entry \<Rightarrow> 'p options" where
  "set_option p (AutoClose v) = p\<lparr>autoClose := v\<rparr>"
| "set_option p (AutoCreate v) = p\<lparr>autoCreate := v\<rparr>"
| "set_option p (AutoOpen v) = p\<lparr>autoOpen := v\<rparr>"
| "set_option p (File v) = p\<lparr>file_opt := v\<rparr>"
| "set_option p (Formatter v) = p\<lparr>formatter := v\<rparr>"
| "set_option p (FormatterParameters v) = p\<lparr>formatterParameters := v\<rparr>"
| "set_option p (Recursive v) = p\<lparr>recursive := v\<rparr>"
| "set_option p (Truncate v) = p\<lparr>truncate_opt := v\<rparr>"

text \<open>\<open>Object.assign(defaults, this.options, options)\<close>: the instance options hold every key, so
  the literal defaults of the methods are always overridden and only the per-call entries
  change the result.\<close>

definition assign :: "'p options \<Rightarrow> 'p option_entry list \<Rightarrow> 'p options" where
  "assign this_options opts = foldl set_option this_options opts"

text \<open>An options record passed on as the per-call argument of another method.\<close>

definition entries :: "'p options \<Rightarrow> 'p option_entry list" where
  "entries p =
     [AutoClose (autoClose p), AutoCreate (autoCreate p), AutoOpen (autoOpen p), File (file_opt p),
      Formatter (formatter p), FormatterParameters (formatterParameters p),
      Recursive (recursive p), Truncate (truncate_opt p)]"

record 'p log =
  options :: "'p options"
  stream :: "wstream option"
  heap :: "nat \<Rightarrow> 'p list"
  fresh :: nat
  world :: world

definition emit :: "event \<Rightarrow> 'p log \<Rightarrow> 'p log" where
  "emit ev s = s\<lparr>world := (world s)\<lparr>emitted := emitted (world s) @ [ev]\<rparr>\<rparr>"

definition fs_call :: "(world \<Rightarrow> error + world) \<Rightarrow> 'p log \<Rightarrow> 'p log outcome" where
  "fs_call f s = (case f (world s) of Inl e \<Rightarrow> Threw e s | Inr w \<Rightarrow> Returned (s\<lparr>world := w\<rparr>))"

text \<open>The constructor. The default of \<open>formatterParameters\<close> is a new empty array; the default
  formatter is \<open>Log.defaultFormatter\<close>, which reads its first argument.\<close>

definition new_Log ::
  "host \<Rightarrow> (nat \<Rightarrow> fmt_entry list list) \<Rightarrow> nat \<Rightarrow> world \<Rightarrow> fmt_entry list option_entry list
     \<Rightarrow> fmt_entry list log" where
  "new_Log h cells n w opts =
     \<lparr> options = assign
         \<lparr> autoClose = False, autoCreate = False, autoOpen = False, file_opt = ''logs/latest.log'',
           formatter = (\<lambda>args. defaultFormatter h (case args of [] \<Rightarrow> [] | a # as \<Rightarrow> a)),
           formatterParameters = n, recursive = True, truncate_opt = False \<rparr> opts,
       stream = None,
       heap = cells(n := []),
       fresh = Suc n,
       world = w \<rparr>"

definition get_file :: "'p log \<Rightarrow> path" where
  "get_file s = resolve (cwd (world s)) (file_opt (options s))"

definition get_exists :: "'p log \<Rightarrow> bool" where
  "get_exists s = existsSync (get_file s) (world s)"

text \<open>The getter \<open>content\<close>: \<^verbatim>\<open>fs.readFileSync(this.file).toString()\<close>.\<close>

definition get_content :: "'p log \<Rightarrow> error + string" where
  "get_content s =
     (case readFileSync (get_file s) (world s) of
        Inl e \<Rightarrow> Inl e
      | Inr bytes \<Rightarrow> Inr (decode (world s) bytes))"

definition close :: "'p log \<Rightarrow> 'p log outcome" where
  "close s =
     (case stream s of
        None \<Rightarrow> Threw (Error ''Write stream is already closed'') s
      | Some st \<Rightarrow> Returned ((emit (Emit ''close'') (emit (Emit ''beforeClose'') s))\<lparr>stream := None\<rparr>))"

text \<open>The event loop runs until nothing is pending. (A stream that \<open>close\<close> has destroyed is no
  longer referenced; what it had handed to the platform is among the pending operations.)\<close>

definition settle :: "'p log \<Rightarrow> 'p log" where
  "settle s =
     (case stream s of
        None \<Rightarrow> s\<lparr>world := run_pending (world s)\<rparr>
      | Some st \<Rightarrow> s\<lparr>stream := Some (settled st), world := flush st (run_pending (world s))\<rparr>)"

definition create :: "'p option_entry list \<Rightarrow> 'p log \<Rightarrow> 'p log outcome" where
  "create opts s =
     (let parsedOptions = assign (options s) opts in
      if get_exists s then Returned s
      else
        and_then (Returned (emit (Emit ''beforeCreate'') s)) (\<lambda>s.
        and_then (if existsSync (dirname (get_file s)) (world s) then Returned s
                  else fs_call (mkdirSync (dirname (get_file s)) (recursive parsedOptions)) s) (\<lambda>s.
        and_then (fs_call (openSync (get_file s)) s) (\<lambda>s.
        Returned (emit (Emit ''create'') s)))))"

definition delete :: "'p option_entry list \<Rightarrow> 'p log \<Rightarrow> 'p log outcome" where
  "delete opts s =
     (let parsedOptions = assign (options s) opts in
      if \<not> get_exists s then Threw (Error ''Log file does not exist'') s
      else
        and_then (case stream s of
                    None \<Rightarrow> Returned s
                  | Some st \<Rightarrow> if autoClose parsedOptions then close s
                               else Threw (Error ''Write stream is not closed'') s) (\<lambda>s.
        and_then (Returned (emit (Emit ''beforeDelete'') s)) (\<lambda>s.
        and_then (fs_call (unlinkSync (get_file s)) s) (\<lambda>s.
        Returned (emit (Emit ''delete'') s)))))"

text \<open>The method \<open>open\<close>.\<close>

definition open_log :: "'p option_entry list \<Rightarrow> 'p log \<Rightarrow> 'p log outcome" where
  "open_log opts s =
     (let parsedOptions = assign (options s) opts in
      and_then (if get_exists s then Returned s
                else if autoCreate parsedOptions then create (entries parsedOptions) s
                else Threw (Error ''Log file does not exist'') s) (\<lambda>s.
      case stream s of
        Some st \<Rightarrow> Returned s
      | None \<Rightarrow>
        and_then (Returned (emit (Emit ''beforeOpen'') s)) (\<lambda>s.
        case (if truncate_opt parsedOptions then Inr [] else get_content s) of
          Inl e \<Rightarrow> Threw e s
        | Inr content \<Rightarrow>
            (case createWriteStream (get_file s) (world s) of (st, w) \<Rightarrow>
               Returned (emit (Emit ''open'')
                 (s\<lparr>stream := Some (written st content),
                    world := stream_write st content w\<rparr>))))))"

text \<open>\<open>Object.assign(array, rest)\<close>: the elements of \<open>rest\<close> overwrite the array by index, and
  extend it where it is shorter.\<close>

definition assign_array :: "'a list \<Rightarrow> 'a list \<Rightarrow> 'a list" where
  "assign_array array rest = rest @ drop (length rest) array"

text \<open>The method \<open>write\<close>. The last branch (no stream after the gate) is what the
  dereference \<^verbatim>\<open>this.stream.write\<close> does on \<open>null\<close>.\<close>

definition write_log :: "'p option_entry list \<Rightarrow> 'p list \<Rightarrow> 'p log \<Rightarrow> 'p log outcome" where
  "write_log opts rest s0 =
     (let parsedOptions = assign (options s0) opts;
          a = formatterParameters parsedOptions;
          s = s0\<lparr>heap := (heap s0)(a := assign_array (heap s0 a) rest)\<rparr> in
      and_then (if get_exists s then Returned s
                else if autoCreate (options s) then create (entries parsedOptions) s
                else Threw (Error ''Log file does not exist'') s) (\<lambda>s.
      and_then (case stream s of
                  Some st \<Rightarrow> Returned s
                | None \<Rightarrow> if autoOpen (options s) then open_log (entries parsedOptions) s
                          else Threw (Error ''Write stream is is not opened'') s) (\<lambda>s.
      and_then (Returned (emit (Emit ''beforeWrite'') s)) (\<lambda>s.
      case formatter parsedOptions (heap s (formatterParameters parsedOptions)) of
        Inl e \<Rightarrow> Threw e s
      | Inr entry \<Rightarrow>
          (case stream s of
             None \<Rightarrow> Threw (TypeError ''Cannot read properties of null'') s
           | Some st \<Rightarrow>
               Returned (emit (EmitText ''write'' entry)
                 (s\<lparr>stream := Some (written st entry),
                    world := stream_write st entry (world s)\<rparr>)))))))"

section \<open>The class Log of \<^verbatim>\<open>src/unnamed/part_000\<close>\<close>

subsection \<open>JavaScript values\<close>

text \<open>The options of this revision are checked at run time, so they are values of any type.
  \<open>JBool\<close> is a primitive boolean, \<open>JBoolean\<close> an object made by \<open>new Boolean(b)\<close>; a function is
  known by its name; the properties of an object are an association list.\<close>

datatype jsval =
    Undefined
  | Null
  | JBool bool
  | JNum int
  | JStr string
  | JBoolean bool
  | JFunction string
  | JObject "(string \<times> jsval) list"

fun truthy :: "jsval \<Rightarrow> bool" where
  "truthy Undefined = False"
| "truthy Null = False"
| "truthy (JBool b) = b"
| "truthy (JNum n) = (n \<noteq> 0)"
| "truthy (JStr s) = (s \<noteq> [])"
| "truthy (JBoolean b) = True"
| "truthy (JFunction f) = True"
| "truthy (JObject kvs) = True"

fun typeof :: "jsval \<Rightarrow> string" where
  "typeof Undefined = ''undefined''"
| "typeof Null = ''object''"
| "typeof (JBool b) = ''boolean''"
| "typeof (JNum n) = ''number''"
| "typeof (JStr s) = ''string''"
| "typeof (JBoolean b) = ''object''"
| "typeof (JFunction f) = ''function''"
| "typeof (JObject kvs) = ''object''"

datatype constructor = Boolean | Function

text \<open>\<open>v instanceof C\<close>: the prototype of \<open>C\<close> is in the prototype chain of \<open>v\<close>; a primitive has
  no prototype chain.\<close>

fun instanceof :: "jsval \<Rightarrow> constructor \<Rightarrow> bool" where
  "instanceof (JBoolean b) Boolean = True"
| "instanceof (JFunction f) Function = True"
| "instanceof v c = False"

text \<open>\<open>key in v\<close> and \<open>v[key]\<close> for the option keys (none of them is inherited).\<close>

fun has_key :: "jsval \<Rightarrow> string \<Rightarrow> bool" where
  "has_key (JObject kvs) key = (case map_of kvs key of Some v \<Rightarrow> True | None \<Rightarrow> False)"
| "has_key v key = False"

fun get_key :: "jsval \<Rightarrow> string \<Rightarrow> jsval" where
  "get_key (JObject kvs) key = (case map_of kvs key of Some v \<Rightarrow> v | None \<Rightarrow> Undefined)"
| "get_key v key = Undefined"

text \<open>A property read on an object held as a map.\<close>

definition property :: "(string \<rightharpoonup> jsval) \<Rightarrow> string \<Rightarrow> jsval" where
  "property m key = (case m key of Some v \<Rightarrow> v | None \<Rightarrow> Undefined)"

subsection \<open>The instance and its accessors\<close>

record log_p =
  file_p :: path
  formatter_p :: jsval
  logger_p :: jsval
  options_p :: "string \<rightharpoonup> jsval"
  stream_p :: "wstream option"
  world_p :: world

definition emit_p :: "event \<Rightarrow> log_p \<Rightarrow> log_p" where
  "emit_p ev s = s\<lparr>world_p := (world_p s)\<lparr>emitted := emitted (world_p s) @ [ev]\<rparr>\<rparr>"

definition fs_call_p :: "(world \<Rightarrow> error + world) \<Rightarrow> log_p \<Rightarrow> log_p outcome" where
  "fs_call_p f s =
     (case f (world_p s) of Inl e \<Rightarrow> Threw e s | Inr w \<Rightarrow> Returned (s\<lparr>world_p := w\<rparr>))"

definition set_file :: "string \<Rightarrow> log_p \<Rightarrow> log_p" where
  "set_file input s = s\<lparr>file_p := resolve (cwd (world_p s)) input\<rparr>"

definition get_file_p :: "log_p \<Rightarrow> path" where
  "get_file_p s = file_p s"

definition defaultOptions :: "(string \<times> constructor \<times> jsval) list" where
  "defaultOptions =
     [(''automaticClose'', Boolean, JBool True),
      (''automaticCreate'', Boolean, JBool True),
      (''automaticOpen'', Boolean, JBool True),
      (''formatter'', Function, JFunction ''Log.defaultFormatter''),
      (''logger'', Function, JFunction ''Log.defaultLogger''),
      (''recursive'', Boolean, JBool True)]"

text \<open>The body of the loop of the setter \<open>options\<close>, for one element of \<open>defaultOptions\<close>.\<close>

fun parse_option :: "jsval \<Rightarrow> string \<times> constructor \<times> jsval \<Rightarrow> string \<times> jsval" where
  "parse_option opts (key, ctor, dflt) =
     (key, if has_key opts key \<and> instanceof (get_key opts key) ctor then get_key opts key else dflt)"

definition set_options :: "jsval \<Rightarrow> log_p \<Rightarrow> log_p outcome" where
  "set_options opts s =
     (if \<not> truthy opts \<or> typeof opts \<noteq> ''object'' then Threw (TypeError ''Invalid options'') s
      else
        let parsedOptions = map_of (map (parse_option opts) defaultOptions) in
        Returned (s\<lparr>options_p := parsedOptions,
                    formatter_p := property parsedOptions ''formatter'',
                    logger_p := property parsedOptions ''logger''\<rparr>))"

text \<open>The getter \<open>options\<close> returns a copy, so the merges of the methods below never change the
  stored options.\<close>

definition get_options :: "log_p \<Rightarrow> (string \<rightharpoonup> jsval)" where
  "get_options s = options_p s"

definition new_Log_p :: "string \<Rightarrow> jsval \<Rightarrow> world \<Rightarrow> log_p outcome" where
  "new_Log_p input opts w =
     set_options opts
       (set_file input
          \<lparr>file_p = [], formatter_p = Undefined, logger_p = Undefined, options_p = Map.empty,
           stream_p = None, world_p = w\<rparr>)"

definition exists_p :: "log_p \<Rightarrow> bool" where
  "exists_p s = existsSync (get_file_p s) (world_p s)"

definition online_p :: "log_p \<Rightarrow> bool" where
  "online_p s = (case stream_p s of None \<Rightarrow> False | Some st \<Rightarrow> \<not> destroyed st)"

definition content_p :: "log_p \<Rightarrow> error + string" where
  "content_p s =
     (case readFileSync (get_file_p s) (world_p s) of
        Inl e \<Rightarrow> Inl e
      | Inr bytes \<Rightarrow> Inr (decode (world_p s) bytes))"

subsection \<open>The lifecycle methods\<close>

text \<open>\<open>fs.mkdirSync(directory, override)\<close>: the platform reads the key \<open>recursive\<close> of the object
  it is given and accepts a primitive boolean or nothing.\<close>

definition mkdirSync_with :: "path \<Rightarrow> (string \<rightharpoonup> jsval) \<Rightarrow> world \<Rightarrow> error + world" where
  "mkdirSync_with d override w =
     (case property override ''recursive'' of
        JBool b \<Rightarrow> mkdirSync d b w
      | Undefined \<Rightarrow> mkdirSync d False w
      | _ \<Rightarrow> Inl (TypeError ''ERR_INVALID_ARG_TYPE''))"

definition create_p :: "(string \<rightharpoonup> jsval) \<Rightarrow> log_p \<Rightarrow> log_p outcome" where
  "create_p opts s =
     (let override = get_options s ++ opts in
      if exists_p s then Returned s
      else
        and_then (if existsSync (dirname (get_file_p s)) (world_p s) then Returned s
                  else fs_call_p (mkdirSync_with (dirname (get_file_p s)) override) s) (\<lambda>s.
        and_then (fs_call_p (openSync (get_file_p s)) s) (\<lambda>s.
        Returned (emit_p (Emit ''create'') s))))"

text \<open>\<open>close\<close> destroys the stream; the reference is cleared later, by the listener that
  \<open>close\<close> registers for the stream's own \<open>close\<close> event (\<open>on_close_p\<close>).\<close>

definition close_p :: "(string \<rightharpoonup> jsval) \<Rightarrow> log_p \<Rightarrow> log_p outcome" where
  "close_p opts s =
     (let override = get_options s ++ opts in
      and_then (if truthy (property override ''automaticCreate'') then create_p override s
                else Returned s) (\<lambda>s.
      if \<not> online_p s then Returned s
      else Returned ((emit_p (Emit ''beforeClose'') s)
                       \<lparr>stream_p := map_option destroy (stream_p s)\<rparr>)))"

definition on_close_p :: "log_p \<Rightarrow> log_p" where
  "on_close_p s = (emit_p (Emit ''close'') s)\<lparr>stream_p := None\<rparr>"

definition delete_p :: "(string \<rightharpoonup> jsval) \<Rightarrow> log_p \<Rightarrow> log_p outcome" where
  "delete_p opts s =
     (let override = get_options s ++ opts in
      if \<not> exists_p s then Returned s
      else
        and_then (if online_p s
                  then (if truthy (property override ''automaticClose'') then close_p override s
                        else Threw (Error ''Cannot delete the log while the write stream is online'') s)
                  else Returned s) (\<lambda>s.
        and_then (fs_call_p (unlinkSync (get_file_p s)) s) (\<lambda>s.
        Returned (emit_p (Emit ''delete'') s))))"

text \<open>\<open>open\<close> reads \<open>automaticCreate\<close> from its own argument, not from the merged object.\<close>

definition open_p :: "(string \<rightharpoonup> jsval) \<Rightarrow> log_p \<Rightarrow> log_p outcome" where
  "open_p opts s =
     (let override = get_options s ++ opts in
      and_then (if exists_p s then Returned s
                else if truthy (property opts ''automaticCreate'') then create_p override s
                else Threw (Error ''Cannot open the write stream if the log file does not exist'') s)
        (\<lambda>s.
      if online_p s then Returned s
      else
        (case createWriteStream (get_file_p s) (world_p (emit_p (Emit ''beforeOpen'') s)) of
           (st, w) \<Rightarrow> Returned (emit_p (Emit ''open'') (s\<lparr>stream_p := Some st, world_p := w\<rparr>)))))"

text \<open>The event loop runs until nothing is pending.\<close>

definition settle_p :: "log_p \<Rightarrow> log_p" where
  "settle_p s =
     (case stream_p s of
        None \<Rightarrow> s\<lparr>world_p := run_pending (world_p s)\<rparr>
      | Some st \<Rightarrow>
          s\<lparr>stream_p := Some (settled st), world_p := flush st (run_pending (world_p s))\<rparr>)"

section \<open>Notions of the specification\<close>

text \<open>The error names of the specification, as the exceptions each revision throws.\<close>

definition MissingFileError :: error where
  "MissingFileError = Error ''Log file does not exist''"

definition StreamOpenError :: error where
  "StreamOpenError = Error ''Write stream is not closed''"

definition NotOpenError :: error where
  "NotOpenError = Error ''Write stream is is not opened''"

definition StreamOpenError_p :: error where
  "StreamOpenError_p = Error ''Cannot delete the log while the write stream is online''"

text \<open>Equality of two ASCII strings up to letter case.\<close>

definition case_insensitive_eq :: "string \<Rightarrow> string \<Rightarrow> bool" where
  "case_insensitive_eq a b = (toUpperCase a = toUpperCase b)"

text \<open>A normalized path has no empty segment and no segment \<open>.\<close> or \<open>..\<close>.\<close>

definition normalized :: "path \<Rightarrow> bool" where
  "normalized p = list_all (\<lambda>seg. seg \<noteq> [] \<and> seg \<noteq> ''.'' \<and> seg \<noteq> ''..'') p"

text \<open>What the methods of \<^verbatim>\<open>src/classes/Log.js\<close> leave alone: the options of the instance, the
  arrays, the working directory.\<close>

definition unchanged :: "'p log \<Rightarrow> 'p log \<Rightarrow> bool" where
  "unchanged s s' = (options s' = options s \<and> heap s' = heap s \<and> cwd (world s') = cwd (world s))"

text \<open>A host, a world and instances for the closed examples: the directory \<open>/srv\<close> holds the
  file \<open>/srv/app.log\<close> with the content \<open>old\<close>, and nothing is pending. The contents of the
  examples are ASCII text, which decoding and encoding leave as it is.\<close>

definition ascii :: "string \<Rightarrow> string" where
  "ascii text = text"

definition host0 :: host where
  "host0 = \<lparr> now = 0, defaultDateTimeFormatter = (\<lambda>t. ''1/1/70, 12:00:00 AM'') \<rparr>"

definition world0 :: world where
  "world0 = \<lparr> files = [[''srv'', ''app.log''] \<mapsto> ''old''], dirs = {[], [''srv'']},
              cwd = [''srv''], emitted = [], pending = [], decode = ascii, encode = ascii \<rparr>"

definition log0 :: "string log" where
  "log0 = \<lparr> options =
             \<lparr> autoClose = False, autoCreate = False, autoOpen = False, file_opt = ''app.log'',
               formatter = (\<lambda>args. Inr (concat args)), formatterParameters = 0,
               recursive = True, truncate_opt = False \<rparr>,
           stream = None, heap = (\<lambda>a. []), fresh = 1, world = world0 \<rparr>"

definition log0_p :: log_p where
  "log0_p = state_of (new_Log_p ''app.log'' (JObject []) world0)"

text \<open>Instances whose file \<open>/srv/missing.log\<close> does not exist.\<close>

definition log1 :: "string log" where
  "log1 = log0\<lparr>options := (options log0)\<lparr>file_opt := ''missing.log''\<rparr>\<rparr>"

definition log1_p :: log_p where
  "log1_p = state_of (new_Log_p ''missing.log'' (JObject []) world0)"

text \<open>Instances with an open stream on \<open>/srv/app.log\<close>.\<close>

definition stream0 :: wstream where
  "stream0 = \<lparr>target = [''srv'', ''app.log''], destroyed = False, opened = True,
               writing = False, queued = []\<rparr>"

definition log2 :: "string log" where
  "log2 = log0\<lparr>stream := Some stream0\<rparr>"

definition log2_p :: log_p where
  "log2_p = log0_p\<lparr>stream_p := Some stream0\<rparr>"

text \<open>The instance \<open>log0\<close> after the process has changed its working directory to the root.\<close>

definition log0_moved :: "string log" where
  "log0_moved = log0\<lparr>world := chdir [] (world log0)\<rparr>"

text \<open>An instance of \<^verbatim>\<open>src/classes/Log.js\<close> with an absolute path.\<close>

definition log3 :: "string log" where
  "log3 = log0\<lparr>options := (options log0)\<lparr>file_opt := ''/var/x.log''\<rparr>\<rparr>"

text \<open>An options object that switches \<open>automaticClose\<close> off with a primitive boolean, and one
  that does it with a \<open>Boolean\<close> object.\<close>

definition close_off :: jsval where
  "close_off = JObject [(''automaticClose'', JBool False)]"

definition close_off_object :: jsval where
  "close_off_object = JObject [(''automaticClose'', JBoolean False)]"

text \<open>Per-call option objects of \<^verbatim>\<open>part_000\<close>.\<close>

definition no_options :: "string \<rightharpoonup> jsval" where
  "no_options = Map.empty"

definition truncate_false :: "string \<rightharpoonup> jsval" where
  "truncate_false = [''truncate'' \<mapsto> JBool False]"

definition automaticClose_false :: "string \<rightharpoonup> jsval" where
  "automaticClose_false = [''automaticClose'' \<mapsto> JBool False]"

section \<open>Properties of the formatter\<close>

subsection \<open>Padding and letter case\<close>

lemma toUpperCase_RIGHT: "toUpperCase ''RIGHT'' = ''RIGHT''"
  by (simp add: toUpperCase_def upper_char_def)

lemma case_insensitive_RIGHT: "case_insensitive_eq a ''RIGHT'' = (toUpperCase a = ''RIGHT'')"
  by (simp add: case_insensitive_eq_def toUpperCase_RIGHT)

lemma filler_single: "filler n [c] = replicate n c"
  by (induction n) (simp_all add: filler_def)

lemma padStart_single: "padStart s n [c] = replicate (n - length s) c @ s"
  by (simp add: padStart_def filler_single)

lemma padEnd_single: "padEnd s n [c] = s @ replicate (n - length s) c"
  by (simp add: padEnd_def filler_single)

lemma set_filler: "set (filler n p) \<subseteq> set p"
proof -
  have "set (concat (replicate n p)) \<subseteq> set p" by (induction n) auto
  then show ?thesis unfolding filler_def using set_take_subset by fastforce
qed

lemma set_padStart: "set (padStart s n p) \<subseteq> set s \<union> set p"
  using set_filler [of "n - length s" p] by (auto simp: padStart_def)

lemma set_padEnd: "set (padEnd s n p) \<subseteq> set s \<union> set p"
  using set_filler [of "n - length s" p] by (auto simp: padEnd_def)

lemma ESC_parsedDateTime:
  "ESC \<notin> set (dateTimeFormatter p (dateTime p)) \<Longrightarrow> ESC \<notin> set (dateTimePadding p)
   \<Longrightarrow> ESC \<notin> set (parsedDateTime p)"
  using set_padStart [of "dateTimeFormatter p (dateTime p)" "dateTimeMinimumWidth p" "dateTimePadding p"]
    set_padEnd [of "dateTimeFormatter p (dateTime p)" "dateTimeMinimumWidth p" "dateTimePadding p"]
  by (auto simp: parsedDateTime_def)

lemma ESC_parsedTitle:
  "ESC \<notin> set (title p) \<Longrightarrow> ESC \<notin> set (titlePadding p) \<Longrightarrow> ESC \<notin> set (parsedTitle p)"
  using set_padStart [of "title p" "titleMinimumWidth p" "titlePadding p"]
    set_padEnd [of "title p" "titleMinimumWidth p" "titlePadding p"]
  by (auto simp: parsedTitle_def)

lemma parsed_styling_irrelevant:
  "parsedDateTime (p\<lparr>dateTimeStyling := a, titleStyling := b, messageStyling := c, separatorStyling := d\<rparr>) = parsedDateTime p"
  "parsedTitle (p\<lparr>dateTimeStyling := a, titleStyling := b, messageStyling := c, separatorStyling := d\<rparr>) = parsedTitle p"
  by (simp_all add: parsedDateTime_def parsedTitle_def)

lemma padStart_explicit:
  "padStart s n p = take (n - length s) (concat (replicate (n - length s) p)) @ s"
  by (simp add: padStart_def filler_def)

lemma padEnd_explicit:
  "padEnd s n p = s @ take (n - length s) (concat (replicate (n - length s) p))"
  by (simp add: padEnd_def filler_def)

subsection \<open>Raw entries\<close>

text \<open>
  Claim C8. With the flag \<open>raw\<close> set in the merged options, \<open>Log.defaultFormatter\<close> of
  \<^verbatim>\<open>src/classes/Log.js\<close> returns the padded timestamp, the padded title and the message,
  joined by the separator text and followed by the terminator. The padded timestamp is the
  rendered timestamp with the missing width filled by the repeated pad text, cut to fit, at
  the start when the alignment is \<open>RIGHT\<close> up to letter case and at the end otherwise (with a
  pad text of one character: that many copies of the character); likewise the padded title.
  The four style-code lists do not matter: any values for them give the same entry. If none
  of the texts that go into the entry holds the escape character, the entry holds none.
\<close>

theorem raw_entry_unstyled:
  assumes "raw (assign_fmt (defaults h) opts)"
  shows "let p = assign_fmt (defaults h) opts;
             stamp = dateTimeFormatter p (dateTime p);
             n = dateTimeMinimumWidth p - length stamp;
             m = titleMinimumWidth p - length (title p);
             stamp_field =
               (if case_insensitive_eq (dateTimeAlignment p) ''RIGHT''
                then take n (concat (replicate n (dateTimePadding p))) @ stamp
                else stamp @ take n (concat (replicate n (dateTimePadding p))));
             title_field =
               (if case_insensitive_eq (titleAlignment p) ''RIGHT''
                then take m (concat (replicate m (titlePadding p))) @ title p
                else title p @ take m (concat (replicate m (titlePadding p))));
             entry = stamp_field @ separator p @ title_field @ separator p @ message p @ end_opt p
         in defaultFormatter h opts = Inr entry
          \<and> format_parsed (p\<lparr>dateTimeStyling := a, titleStyling := b, messageStyling := c,
               separatorStyling := d\<rparr>) = Inr entry
          \<and> (dateTimePadding p = [x] \<longrightarrow>
               stamp_field = (if case_insensitive_eq (dateTimeAlignment p) ''RIGHT''
                              then replicate n x @ stamp else stamp @ replicate n x))
          \<and> (titlePadding p = [y] \<longrightarrow>
               title_field = (if case_insensitive_eq (titleAlignment p) ''RIGHT''
                              then replicate m y @ title p else title p @ replicate m y))
          \<and> (ESC \<notin> set (dateTimeFormatter p (dateTime p)) \<union> set (dateTimePadding p) \<union> set (title p)
                 \<union> set (titlePadding p) \<union> set (message p) \<union> set (separator p) \<union> set (end_opt p)
               \<longrightarrow> ESC \<notin> set entry)"
proof -
  define p where "p = assign_fmt (defaults h) opts"
  have r: "raw p" using assms by (simp add: p_def)
  have d: "parsedDateTime p =
      (if case_insensitive_eq (dateTimeAlignment p) ''RIGHT''
       then take (dateTimeMinimumWidth p - length (dateTimeFormatter p (dateTime p)))
              (concat (replicate (dateTimeMinimumWidth p - length (dateTimeFormatter p (dateTime p)))
                 (dateTimePadding p))) @ dateTimeFormatter p (dateTime p)
       else dateTimeFormatter p (dateTime p)
            @ take (dateTimeMinimumWidth p - length (dateTimeFormatter p (dateTime p)))
              (concat (replicate (dateTimeMinimumWidth p - length (dateTimeFormatter p (dateTime p)))
                 (dateTimePadding p))))"
    by (simp add: parsedDateTime_def case_insensitive_RIGHT padStart_explicit padEnd_explicit)
  have t: "parsedTitle p =
      (if case_insensitive_eq (titleAlignment p) ''RIGHT''
       then take (titleMinimumWidth p - length (title p))
              (concat (replicate (titleMinimumWidth p - length (title p)) (titlePadding p))) @ title p
       else title p @ take (titleMinimumWidth p - length (title p))
              (concat (replicate (titleMinimumWidth p - length (title p)) (titlePadding p))))"
    by (simp add: parsedTitle_def case_insensitive_RIGHT padStart_explicit padEnd_explicit)
  have e: "defaultFormatter h opts
      = Inr (parsedDateTime p @ separator p @ parsedTitle p @ separator p @ message p @ end_opt p)"
    using r by (simp add: defaultFormatter_def format_parsed_def p_def)
  have f: "format_parsed (p\<lparr>dateTimeStyling := a, titleStyling := b, messageStyling := c,
               separatorStyling := d\<rparr>)
      = Inr (parsedDateTime p @ separator p @ parsedTitle p @ separator p @ message p @ end_opt p)"
    using r by (simp add: format_parsed_def parsed_styling_irrelevant)
  have g: "ESC \<notin> set (dateTimeFormatter p (dateTime p)) \<union> set (dateTimePadding p) \<union> set (title p)
                 \<union> set (titlePadding p) \<union> set (message p) \<union> set (separator p) \<union> set (end_opt p)
      \<longrightarrow> ESC \<notin> set (parsedDateTime p @ separator p @ parsedTitle p @ separator p @ message p
                      @ end_opt p)"
    by (auto dest: ESC_parsedDateTime ESC_parsedTitle)
  have sx: "dateTimePadding p = [x] \<longrightarrow> parsedDateTime p =
      (if case_insensitive_eq (dateTimeAlignment p) ''RIGHT''
       then replicate (dateTimeMinimumWidth p - length (dateTimeFormatter p (dateTime p))) x
            @ dateTimeFormatter p (dateTime p)
       else dateTimeFormatter p (dateTime p)
            @ replicate (dateTimeMinimumWidth p - length (dateTimeFormatter p (dateTime p))) x)"
    by (simp add: parsedDateTime_def case_insensitive_RIGHT padStart_single padEnd_single)
  have sy: "titlePadding p = [y] \<longrightarrow> parsedTitle p =
      (if case_insensitive_eq (titleAlignment p) ''RIGHT''
       then replicate (titleMinimumWidth p - length (title p)) y @ title p
       else title p @ replicate (titleMinimumWidth p - length (title p)) y)"
    by (simp add: parsedTitle_def case_insensitive_RIGHT padStart_single padEnd_single)
  show ?thesis
    unfolding Let_def p_def [symmetric]
    using e f g sx sy unfolding d t by blast
qed

theorem raw_entry_unstyled_witness:
  "raw (assign_fmt (defaults host0) [Message ''hi''])
   \<and> defaultFormatter host0 [Message ''hi'']
       = Inr (''1/1/70, 12:00:00 AM       | TITLE                | hi'' @ [CHR 0x0A])
   \<and> ESC \<notin> set (''1/1/70, 12:00:00 AM       | TITLE                | hi'' @ [CHR 0x0A])
   \<and> raw (assign_fmt (defaults host0) [DateTimeAlignment ''RIGHT'', DateTimeMinimumWidth 21,
        DateTimePadding ''#'', TitleAlignment ''right'', TitleMinimumWidth 7, TitlePadding ''-='',
        Title ''AB'', Message ''hi'', Separator ''|'', End ''.''])
   \<and> defaultFormatter host0 [DateTimeAlignment ''RIGHT'', DateTimeMinimumWidth 21,
        DateTimePadding ''#'', TitleAlignment ''right'', TitleMinimumWidth 7, TitlePadding ''-='',
        Title ''AB'', Message ''hi'', Separator ''|'', End ''.'']
       = Inr ''##1/1/70, 12:00:00 AM|-=-=-AB|hi.''"
proof -
  have u: "case_insensitive_eq ''right'' ''RIGHT''" "case_insensitive_eq ''RIGHT'' ''RIGHT''"
    "\<not> case_insensitive_eq ''LEFT'' ''RIGHT''"
    by (simp_all add: case_insensitive_eq_def toUpperCase_def upper_char_def)
  have r1: "raw (assign_fmt (defaults host0) [Message ''hi''])"
    by (simp add: assign_fmt_def defaults_def)
  have r2: "raw (assign_fmt (defaults host0) [DateTimeAlignment ''RIGHT'', DateTimeMinimumWidth 21,
        DateTimePadding ''#'', TitleAlignment ''right'', TitleMinimumWidth 7, TitlePadding ''-='',
        Title ''AB'', Message ''hi'', Separator ''|'', End ''.''])"
    by (simp add: assign_fmt_def defaults_def)
  have e1: "defaultFormatter host0 [Message ''hi'']
       = Inr (''1/1/70, 12:00:00 AM       | TITLE                | hi'' @ [CHR 0x0A])"
    using raw_entry_unstyled [OF r1]
    by (simp add: Let_def assign_fmt_def defaults_def host0_def u eval_nat_numeral)
  have e2: "defaultFormatter host0 [DateTimeAlignment ''RIGHT'', DateTimeMinimumWidth 21,
        DateTimePadding ''#'', TitleAlignment ''right'', TitleMinimumWidth 7, TitlePadding ''-='',
        Title ''AB'', Message ''hi'', Separator ''|'', End ''.'']
       = Inr ''##1/1/70, 12:00:00 AM|-=-=-AB|hi.''"
    using raw_entry_unstyled [OF r2]
    by (simp add: Let_def assign_fmt_def defaults_def host0_def u eval_nat_numeral)
  show ?thesis
    using r1 r2 e1 e2 by (simp add: ESC_def)
qed

subsection \<open>Alignment and padding\<close>

text \<open>
  Claim C4, as amended. The timestamp and, independently, the title are padded to their minimum
  widths with the pad character (a pad text of one character), at the start when the alignment
  selects it and at the end for every other alignment value. In \<^verbatim>\<open>src/classes/Log.js\<close> the
  alignment selects the start when it equals \<open>RIGHT\<close> up to letter case; in
  \<^verbatim>\<open>src/unnamed/part_000\<close> only when it is exactly \<open>RIGHT\<close>.
\<close>

theorem alignment_padding:
  assumes "dateTimePadding p = [c]" and "titlePadding p = [d]"
  shows "parsedDateTime p =
      (if case_insensitive_eq (dateTimeAlignment p) ''RIGHT''
       then replicate (dateTimeMinimumWidth p - length (dateTimeFormatter p (dateTime p))) c
            @ dateTimeFormatter p (dateTime p)
       else dateTimeFormatter p (dateTime p)
            @ replicate (dateTimeMinimumWidth p - length (dateTimeFormatter p (dateTime p))) c)
    \<and> parsedTitle p =
      (if case_insensitive_eq (titleAlignment p) ''RIGHT''
       then replicate (titleMinimumWidth p - length (title p)) d @ title p
       else title p @ replicate (titleMinimumWidth p - length (title p)) d)
    \<and> dateTime_p p =
      (if dateTimeAlignment p = ''RIGHT''
       then replicate (dateTimeMinimumWidth p - length (dateTimeFormatter p (dateTime p))) c
            @ dateTimeFormatter p (dateTime p)
       else dateTimeFormatter p (dateTime p)
            @ replicate (dateTimeMinimumWidth p - length (dateTimeFormatter p (dateTime p))) c)
    \<and> title_p p =
      (if titleAlignment p = ''RIGHT''
       then replicate (titleMinimumWidth p - length (title p)) d @ title p
       else title p @ replicate (titleMinimumWidth p - length (title p)) d)"
  using assms
  by (simp add: parsedDateTime_def parsedTitle_def dateTime_p_def title_p_def
      case_insensitive_RIGHT padStart_single padEnd_single)

theorem alignment_padding_witness:
  "titlePadding (assign_fmt (defaults host0) [TitleAlignment ''Right'', TitleMinimumWidth 10,
     TitlePadding ''-'', Title ''AB'']) = ''-''
   \<and> parsedTitle (assign_fmt (defaults host0) [TitleAlignment ''Right'', TitleMinimumWidth 10,
        TitlePadding ''-'', Title ''AB'']) = ''--------AB''
   \<and> title_p (assign_fmt (defaults_p host0) [TitleAlignment ''RIGHT'', TitleMinimumWidth 10,
        TitlePadding ''-'', Title ''AB'']) = ''--------AB''
   \<and> title_p (assign_fmt (defaults_p host0) [TitleAlignment ''LEFT'', TitleMinimumWidth 10,
        TitlePadding ''-'', Title ''AB'']) = ''AB--------''"
proof -
  have a: "dateTimePadding (assign_fmt (defaults host0) [TitleAlignment ''Right'',
      TitleMinimumWidth 10, TitlePadding ''-'', Title ''AB'']) = [CHR '' '']"
    "titlePadding (assign_fmt (defaults host0) [TitleAlignment ''Right'',
      TitleMinimumWidth 10, TitlePadding ''-'', Title ''AB'']) = [CHR ''-'']"
    by (simp_all add: assign_fmt_def defaults_def)
  have b: "dateTimePadding (assign_fmt (defaults_p host0) [TitleAlignment ''RIGHT'',
      TitleMinimumWidth 10, TitlePadding ''-'', Title ''AB'']) = [CHR '' '']"
    "titlePadding (assign_fmt (defaults_p host0) [TitleAlignment ''RIGHT'',
      TitleMinimumWidth 10, TitlePadding ''-'', Title ''AB'']) = [CHR ''-'']"
    by (simp_all add: assign_fmt_def defaults_p_def)
  have c: "dateTimePadding (assign_fmt (defaults_p host0) [TitleAlignment ''LEFT'',
      TitleMinimumWidth 10, TitlePadding ''-'', Title ''AB'']) = [CHR '' '']"
    "titlePadding (assign_fmt (defaults_p host0) [TitleAlignment ''LEFT'',
      TitleMinimumWidth 10, TitlePadding ''-'', Title ''AB'']) = [CHR ''-'']"
    by (simp_all add: assign_fmt_def defaults_p_def)
  have u: "case_insensitive_eq ''Right'' ''RIGHT''"
    by (simp add: case_insensitive_eq_def toUpperCase_def upper_char_def)
  from alignment_padding [OF a] alignment_padding [OF b] alignment_padding [OF c] u a(2)
  show ?thesis
    by (simp add: assign_fmt_def defaults_def defaults_p_def eval_nat_numeral)
qed

text \<open>The claim as stated fails on \<^verbatim>\<open>src/unnamed/part_000\<close>: the alignment \<open>right\<close> equals
  \<open>RIGHT\<close> up to letter case, and the title is padded at the end.\<close>

theorem alignment_case_counterexample:
  "case_insensitive_eq ''right'' ''RIGHT''
   \<and> title_p (assign_fmt (defaults_p host0) [TitleAlignment ''right'', TitleMinimumWidth 10,
        TitlePadding ''-'', Title ''AB'']) = ''AB--------''
   \<and> title_p (assign_fmt (defaults_p host0) [TitleAlignment ''right'', TitleMinimumWidth 10,
        TitlePadding ''-'', Title ''AB'']) \<noteq> padStart ''AB'' 10 ''-''"
  by (simp add: case_insensitive_eq_def toUpperCase_def upper_char_def title_p_def assign_fmt_def
      defaults_p_def padEnd_def padStart_def filler_def eval_nat_numeral)

subsection \<open>Styled fields\<close>

lemma string_of_int_0: "string_of_int 0 = ''0''"
  by (simp add: string_of_int_def string_of_nat.simps digit_char_def)

lemma directive_nonempty: "directive w \<noteq> []"
  by (cases w) simp_all

text \<open>
  Claim C3, as amended. In \<^verbatim>\<open>src/unnamed/part_000\<close> a field whose style-code list is empty is
  rendered as its plain text, with neither an opening nor a reset sequence, and a field with a
  non-empty list (also the list of the one code 0) is its text between the opening sequences,
  which are not empty, and the reset sequence; the entry is the concatenation of the fields so
  rendered. In the styled branch of \<^verbatim>\<open>src/classes/Log.js\<close> every field, whatever its list, is
  its opening sequences, its text and the reset sequence.
\<close>

theorem styled_fields:
  "styled_p (Styles []) text = text
   \<and> (ws \<noteq> [] \<longrightarrow> styled_p (Styles ws) text = concat (map directive ws) @ text @ reset
                  \<and> concat (map directive ws) \<noteq> [])
   \<and> styled_p (Styles [Single (Num 0)]) text = reset @ text @ reset
   \<and> format_parsed_p p =
       styled_p (dateTimeStyling p) (dateTime_p p) @ styled_p (separatorStyling p) (separator p)
       @ styled_p (titleStyling p) (title_p p) @ styled_p (separatorStyling p) (separator p)
       @ styled_p (messageStyling p) (message p) @ end_opt p
   \<and> styled (Styles us) text = Inr (concat (map directive us) @ text @ reset)
   \<and> (\<not> raw q \<and> dateTimeStyling q = Styles a \<and> titleStyling q = Styles b
        \<and> messageStyling q = Styles c \<and> separatorStyling q = Styles d \<longrightarrow>
      format_parsed q = Inr (
        concat (map directive a) @ parsedDateTime q @ reset
        @ concat (map directive d) @ separator q @ reset
        @ concat (map directive b) @ parsedTitle q @ reset
        @ concat (map directive d) @ separator q @ reset
        @ concat (map directive c) @ message q @ reset @ end_opt q))"
  by (auto simp add: directive_nonempty neq_Nil_conv reset_def string_of_int_0 format_parsed_p_def
      format_parsed_def)

theorem styled_fields_witness:
  "styled_p (Styles [Single (Num 1), Single (Num 93)]) ''AB''
     = [ESC] @ ''[1m'' @ [ESC] @ ''[93m'' @ ''AB'' @ [ESC] @ ''[0m''
   \<and> styled_p (Styles []) ''AB'' = ''AB''
   \<and> ESC \<notin> set (styled_p (Styles []) ''AB'')
   \<and> format_parsed (assign_fmt (defaults host0) [Raw False, DateTimeStyling (Styles []),
        TitleStyling (Styles []), MessageStyling (Styles []), SeparatorStyling (Styles []),
        DateTimeMinimumWidth 0, TitleMinimumWidth 0, Title ''T'', Message ''hi''])
     = Inr (''1/1/70, 12:00:00 AM'' @ reset @ '' | '' @ reset @ ''T'' @ reset @ '' | '' @ reset
            @ ''hi'' @ reset @ [CHR 0x0A])"
proof -
  have n: "[Single (Num 1), Single (Num 93)] \<noteq> []" by simp
  have d: "concat (map directive [Single (Num 1), Single (Num 93)]) = [ESC] @ ''[1m'' @ [ESC] @ ''[93m''"
    by (simp add: string_of_int_def string_of_nat.simps digit_char_def)
  have q: "\<not> raw (assign_fmt (defaults host0) [Raw False, DateTimeStyling (Styles []),
        TitleStyling (Styles []), MessageStyling (Styles []), SeparatorStyling (Styles []),
        DateTimeMinimumWidth 0, TitleMinimumWidth 0, Title ''T'', Message ''hi''])"
    by (simp add: assign_fmt_def defaults_def)
  from styled_fields [of "''AB''" "[Single (Num 1), Single (Num 93)]" "defaults_p host0" "[]"
      "assign_fmt (defaults host0) [Raw False, DateTimeStyling (Styles []),
        TitleStyling (Styles []), MessageStyling (Styles []), SeparatorStyling (Styles []),
        DateTimeMinimumWidth 0, TitleMinimumWidth 0, Title ''T'', Message ''hi'']" "[]" "[]" "[]" "[]"]
    n d q
  show ?thesis
    by (simp add: reset_def ESC_def assign_fmt_def defaults_def host0_def parsedDateTime_def
        parsedTitle_def toUpperCase_def upper_char_def padEnd_def)
qed

text \<open>The claim as stated fails on \<^verbatim>\<open>src/classes/Log.js\<close>: a field with an empty style-code
  list is followed by the reset sequence, so it holds the escape character.\<close>

theorem empty_styling_counterexample:
  "styled (Styles []) ''hi'' = Inr (''hi'' @ [ESC] @ ''[0m'')
   \<and> styled (Styles []) ''hi'' \<noteq> Inr ''hi''
   \<and> defaultFormatter host0 [Raw False, DateTimeStyling (Styles []), TitleStyling (Styles []),
        MessageStyling (Styles []), SeparatorStyling (Styles []), DateTimeMinimumWidth 0,
        TitleMinimumWidth 0, Title ''T'', Message ''hi'']
     = Inr (''1/1/70, 12:00:00 AM'' @ [ESC] @ ''[0m'' @ '' | '' @ [ESC] @ ''[0m'' @ ''T'' @ [ESC] @ ''[0m''
            @ '' | '' @ [ESC] @ ''[0m'' @ ''hi'' @ [ESC] @ ''[0m'' @ [CHR 0x0A])"
  by (simp add: defaultFormatter_def format_parsed_def reset_def assign_fmt_def defaults_def
      host0_def parsedDateTime_def parsedTitle_def toUpperCase_def upper_char_def padEnd_def)

section \<open>Properties of the lifecycle\<close>

subsection \<open>The example instances\<close>

lemma resolve_examples:
  "resolve [''srv''] ''app.log'' = [''srv'', ''app.log'']"
  "resolve [''srv''] ''missing.log'' = [''srv'', ''missing.log'']"
  "resolve [''tmp''] ''app.log'' = [''tmp'', ''app.log'']"
  by (simp_all add: resolve_def enter_def)

lemma log0_fields:
  "get_file log0 = [''srv'', ''app.log'']" "stream log0 = None" "world log0 = world0"
  "get_exists log0" "get_content log0 = Inr ''old''"
  by (simp_all add: get_file_def get_exists_def get_content_def log0_def world0_def
      resolve_examples existsSync_def readFileSync_def ascii_def)

lemma log1_fields:
  "get_file log1 = [''srv'', ''missing.log'']" "stream log1 = None" "world log1 = world0"
  "\<not> get_exists log1"
  by (simp_all add: get_file_def get_exists_def log1_def log0_def world0_def
      resolve_examples existsSync_def)

lemma log2_fields:
  "get_file log2 = [''srv'', ''app.log'']" "stream log2 = Some stream0" "world log2 = world0"
  "get_exists log2"
  by (simp_all add: get_file_def get_exists_def log2_def log0_def world0_def
      resolve_examples existsSync_def)

lemma default_options_p:
  "map_of (map (parse_option (JObject [])) defaultOptions) =
     [''automaticClose'' \<mapsto> JBool True, ''automaticCreate'' \<mapsto> JBool True,
      ''automaticOpen'' \<mapsto> JBool True, ''formatter'' \<mapsto> JFunction ''Log.defaultFormatter'',
      ''logger'' \<mapsto> JFunction ''Log.defaultLogger'', ''recursive'' \<mapsto> JBool True]"
  by (rule ext) (simp add: defaultOptions_def)

lemma log0_p_eq:
  "log0_p = \<lparr>file_p = [''srv'', ''app.log''], formatter_p = JFunction ''Log.defaultFormatter'',
      logger_p = JFunction ''Log.defaultLogger'',
      options_p = map_of (map (parse_option (JObject [])) defaultOptions),
      stream_p = None, world_p = world0\<rparr>"
  by (simp add: log0_p_def new_Log_p_def set_options_def set_file_def world0_def resolve_examples
      Let_def default_options_p property_def)

lemma log1_p_eq:
  "log1_p = \<lparr>file_p = [''srv'', ''missing.log''], formatter_p = JFunction ''Log.defaultFormatter'',
      logger_p = JFunction ''Log.defaultLogger'',
      options_p = map_of (map (parse_option (JObject [])) defaultOptions),
      stream_p = None, world_p = world0\<rparr>"
  by (simp add: log1_p_def new_Log_p_def set_options_def set_file_def world0_def resolve_examples
      Let_def default_options_p property_def)

lemma log0_p_fields:
  "exists_p log0_p" "\<not> online_p log0_p" "content_p log0_p = Inr ''old''"
  by (simp_all add: log0_p_eq exists_p_def online_p_def content_p_def get_file_p_def world0_def
      existsSync_def readFileSync_def ascii_def)

lemma log1_p_fields:
  "\<not> exists_p log1_p" "\<not> online_p log1_p"
  by (simp_all add: log1_p_eq exists_p_def online_p_def get_file_p_def world0_def existsSync_def)

lemma log2_p_fields:
  "exists_p log2_p" "online_p log2_p" "get_file_p log2_p = [''srv'', ''app.log'']"
  "world_p log2_p = world0"
  by (simp_all add: log2_p_def log0_p_eq exists_p_def online_p_def get_file_p_def world0_def
      existsSync_def stream0_def)

subsection \<open>Creating a file that exists\<close>

text \<open>
  Claim C9. In both revisions \<open>create\<close> on an instance whose file exists returns the instance
  and changes nothing: no filesystem action, no event, the content as it was. Hence whenever
  \<open>create\<close> changes the state (a directory or the file is made), the file was absent.
\<close>

theorem create_existing_noop:
  "(get_exists s \<longrightarrow> create opts s = Returned s)
   \<and> (state_of (create opts s) \<noteq> s \<longrightarrow> \<not> get_exists s)
   \<and> (exists_p t \<longrightarrow> create_p popts t = Returned t)
   \<and> (state_of (create_p popts t) \<noteq> t \<longrightarrow> \<not> exists_p t)"
  by (auto simp: create_def create_p_def Let_def)

theorem create_existing_noop_witness:
  "get_exists log0 \<and> create [Recursive False] log0 = Returned log0
   \<and> get_content (state_of (create [Recursive False] log0)) = Inr ''old''
   \<and> exists_p log0_p \<and> create_p no_options log0_p = Returned log0_p
   \<and> content_p (state_of (create_p no_options log0_p)) = Inr ''old''"
  using create_existing_noop [of log0 "[Recursive False]" log0_p no_options]
  by (simp add: log0_fields log0_p_fields)

subsection \<open>Deleting\<close>

text \<open>
  Claim C2, as amended. In \<^verbatim>\<open>src/classes/Log.js\<close>, \<open>delete\<close> throws the missing-file error when
  the file does not exist; when the file exists and the stream is open with \<open>autoClose\<close> off in
  the merged options it throws the stream-open error and leaves the state as it was (the file
  still exists); with \<open>autoClose\<close> on it closes the stream, then removes the file. In
  \<^verbatim>\<open>src/unnamed/part_000\<close> the last two hold as well (with \<open>automaticClose\<close>, the stream being
  destroyed), but \<open>delete\<close> on a file that does not exist returns the instance and throws
  nothing.
\<close>

theorem delete_policy:
  "(\<not> get_exists s \<longrightarrow> delete opts s = Threw MissingFileError s)
   \<and> (get_exists s \<and> stream s = Some st \<and> \<not> autoClose (assign (options s) opts) \<longrightarrow>
        delete opts s = Threw StreamOpenError s \<and> get_exists (state_of (delete opts s)))
   \<and> (files (world s) (get_file s) = Some c \<and> stream s = Some st
        \<and> autoClose (assign (options s) opts) \<longrightarrow>
        delete opts s = Returned (s\<lparr>stream := None,
          world := (world s)\<lparr>files := (files (world s))(get_file s := None),
            emitted := emitted (world s) @ [Emit ''beforeClose'', Emit ''close'',
              Emit ''beforeDelete'', Emit ''delete'']\<rparr>\<rparr>))
   \<and> (\<not> exists_p t \<longrightarrow> delete_p popts t = Returned t)
   \<and> (exists_p t \<and> online_p t \<and> \<not> truthy (property (get_options t ++ popts) ''automaticClose'') \<longrightarrow>
        delete_p popts t = Threw StreamOpenError_p t \<and> exists_p (state_of (delete_p popts t)))
   \<and> (files (world_p t) (get_file_p t) = Some c \<and> stream_p t = Some st \<and> \<not> destroyed st
        \<and> truthy (property (get_options t ++ popts) ''automaticClose'') \<longrightarrow>
        delete_p popts t = Returned (t\<lparr>stream_p := Some (st\<lparr>destroyed := True\<rparr>),
          world_p := (world_p t)\<lparr>files := (files (world_p t))(get_file_p t := None),
            emitted := emitted (world_p t) @ [Emit ''beforeClose'', Emit ''delete'']\<rparr>\<rparr>)
        \<and> \<not> online_p (state_of (delete_p popts t)))"
proof -
  have a: "\<not> get_exists s \<longrightarrow> delete opts s = Threw MissingFileError s"
    by (simp add: delete_def MissingFileError_def)
  have b: "get_exists s \<and> stream s = Some st \<and> \<not> autoClose (assign (options s) opts) \<longrightarrow>
        delete opts s = Threw StreamOpenError s \<and> get_exists (state_of (delete opts s))"
    by (simp add: delete_def StreamOpenError_def Let_def)
  have c: "files (world s) (get_file s) = Some c \<and> stream s = Some st
        \<and> autoClose (assign (options s) opts) \<longrightarrow>
        delete opts s = Returned (s\<lparr>stream := None,
          world := (world s)\<lparr>files := (files (world s))(get_file s := None),
            emitted := emitted (world s) @ [Emit ''beforeClose'', Emit ''close'',
              Emit ''beforeDelete'', Emit ''delete'']\<rparr>\<rparr>)"
    by (simp add: delete_def Let_def get_exists_def existsSync_def close_def emit_def fs_call_def
        unlinkSync_def get_file_def)
  have d: "\<not> exists_p t \<longrightarrow> delete_p popts t = Returned t"
    by (simp add: delete_p_def)
  have e: "exists_p t \<and> online_p t \<and> \<not> truthy (property (get_options t ++ popts) ''automaticClose'') \<longrightarrow>
        delete_p popts t = Threw StreamOpenError_p t \<and> exists_p (state_of (delete_p popts t))"
    by (simp add: delete_p_def StreamOpenError_p_def Let_def)
  have f: "files (world_p t) (get_file_p t) = Some c \<and> stream_p t = Some st \<and> \<not> destroyed st
        \<and> truthy (property (get_options t ++ popts) ''automaticClose'') \<longrightarrow>
        delete_p popts t = Returned (t\<lparr>stream_p := Some (st\<lparr>destroyed := True\<rparr>),
          world_p := (world_p t)\<lparr>files := (files (world_p t))(get_file_p t := None),
            emitted := emitted (world_p t) @ [Emit ''beforeClose'', Emit ''delete'']\<rparr>\<rparr>)
        \<and> \<not> online_p (state_of (delete_p popts t))"
    by (simp add: delete_p_def Let_def exists_p_def existsSync_def online_p_def close_p_def
        create_p_def emit_p_def fs_call_p_def unlinkSync_def get_file_p_def get_options_def
        destroy_def)
  from a b c d e f show ?thesis by blast
qed

theorem delete_policy_witness:
  "\<not> get_exists log1 \<and> delete [] log1 = Threw MissingFileError log1
   \<and> get_exists log2 \<and> stream log2 = Some stream0 \<and> \<not> autoClose (assign (options log2) [])
   \<and> delete [] log2 = Threw StreamOpenError log2
   \<and> get_exists (state_of (delete [] log2))
   \<and> autoClose (assign (options log2) [AutoClose True])
   \<and> stream (state_of (delete [AutoClose True] log2)) = None
   \<and> \<not> get_exists (state_of (delete [AutoClose True] log2))
   \<and> exists_p log2_p \<and> online_p log2_p
   \<and> delete_p automaticClose_false log2_p = Threw StreamOpenError_p log2_p
   \<and> \<not> exists_p (state_of (delete_p no_options log2_p))
   \<and> \<not> online_p (state_of (delete_p no_options log2_p))"
proof -
  have o: "\<not> autoClose (assign (options log2) [])"
    "autoClose (assign (options log2) [AutoClose True])"
    by (simp_all add: assign_def log2_def log0_def)
  have f: "files (world log2) (get_file log2) = Some ''old''"
    by (simp add: log2_fields world0_def)
  have p: "\<not> truthy (property (get_options log2_p ++ automaticClose_false) ''automaticClose'')"
    "truthy (property (get_options log2_p ++ no_options) ''automaticClose'')"
    by (simp_all add: property_def get_options_def automaticClose_false_def no_options_def
        log2_p_def log0_p_eq default_options_p)
  have g: "files (world_p log2_p) (get_file_p log2_p) = Some ''old''"
    "stream_p log2_p = Some stream0" "\<not> destroyed stream0"
    by (simp_all add: log2_p_fields world0_def) (simp_all add: log2_p_def stream0_def)
  have w1: "delete [] log1 = Threw MissingFileError log1"
    using delete_policy [of log1 "[]" stream0 "''old''" log2_p no_options] log1_fields(4)
    by blast
  have w2: "delete [] log2 = Threw StreamOpenError log2 \<and> get_exists (state_of (delete [] log2))"
    using delete_policy [of log2 "[]" stream0 "''old''" log2_p no_options] log2_fields o(1)
    by blast
  have w3: "delete [AutoClose True] log2 = Returned (log2\<lparr>stream := None,
          world := (world log2)\<lparr>files := (files (world log2))(get_file log2 := None),
            emitted := emitted (world log2) @ [Emit ''beforeClose'', Emit ''close'',
              Emit ''beforeDelete'', Emit ''delete'']\<rparr>\<rparr>)"
    using delete_policy [of log2 "[AutoClose True]" stream0 "''old''" log2_p no_options]
      log2_fields(2) o(2) f
    by blast
  have w4: "delete_p automaticClose_false log2_p = Threw StreamOpenError_p log2_p"
    using delete_policy [of log2 "[]" stream0 "''old''" log2_p automaticClose_false]
      log2_p_fields p(1)
    by blast
  have w5: "delete_p no_options log2_p = Returned (log2_p\<lparr>stream_p := Some (stream0\<lparr>destroyed := True\<rparr>),
          world_p := (world_p log2_p)\<lparr>files := (files (world_p log2_p))(get_file_p log2_p := None),
            emitted := emitted (world_p log2_p) @ [Emit ''beforeClose'', Emit ''delete'']\<rparr>\<rparr>)"
    and y5: "\<not> online_p (state_of (delete_p no_options log2_p))"
    using delete_policy [of log2 "[]" stream0 "''old''" log2_p no_options] g p(2)
    by blast+
  have y3: "stream (state_of (delete [AutoClose True] log2)) = None"
    by (simp add: w3)
  have x3: "\<not> get_exists (state_of (delete [AutoClose True] log2))"
    by (simp add: w3 get_exists_def get_file_def existsSync_def)
      (simp add: log2_def log0_def world0_def resolve_examples)
  have x5: "\<not> exists_p (state_of (delete_p no_options log2_p))"
    by (simp add: w5 exists_p_def get_file_p_def existsSync_def)
      (simp add: log2_p_def log0_p_eq world0_def)
  show ?thesis
    using w1 w2 w4 y3 y5 x3 x5 o log1_fields(4) log2_fields(2,4) log2_p_fields(1,2)
    by simp
qed

text \<open>The claim as stated fails on \<^verbatim>\<open>src/unnamed/part_000\<close>: \<open>delete\<close> on an instance whose
  file does not exist returns.\<close>

theorem delete_missing_counterexample:
  "\<not> exists_p log1_p \<and> delete_p no_options log1_p = Returned log1_p"
  by (simp add: delete_p_def log1_p_fields)

subsection \<open>The path\<close>

lemma normalized_butlast: "normalized p \<Longrightarrow> normalized (butlast p)"
  by (auto simp: normalized_def list_all_iff dest: in_set_butlastD)

lemma normalized_enter: "normalized p \<Longrightarrow> normalized (enter p seg)"
  by (auto simp: enter_def normalized_butlast) (simp add: normalized_def)

lemma normalized_foldl: "normalized p \<Longrightarrow> normalized (foldl enter p segs)"
  by (induction segs arbitrary: p) (simp_all add: normalized_enter)

lemma normalized_resolve: "normalized wd \<Longrightarrow> normalized (resolve wd input)"
  unfolding resolve_def
  by (rule normalized_foldl) (simp add: normalized_def split: list.split)

lemma resolve_absolute: "resolve wd (CHR ''/'' # input) = resolve wd' (CHR ''/'' # input)"
  by (simp add: resolve_def)

lemma file_p_create: "file_p (state_of (create_p popts t)) = file_p t"
  by (simp add: create_p_def Let_def fs_call_p_def emit_p_def split: sum.split)

lemma file_p_close: "file_p (state_of (close_p popts t)) = file_p t"
proof -
  have "file_p (state_of (and_then r (\<lambda>s. if \<not> online_p s then Returned s
      else Returned ((emit_p (Emit ''beforeClose'') s)
             \<lparr>stream_p := map_option destroy (stream_p s)\<rparr>)))) = file_p (state_of r)"
    for r
    by (cases r) (simp_all add: emit_p_def)
  then show ?thesis
    using file_p_create [of "get_options t ++ popts" t]
    by (simp add: close_p_def Let_def)
qed

lemma file_p_and_then:
  "(\<And>x. file_p (state_of (f x)) = file_p x) \<Longrightarrow> file_p (state_of (and_then r f)) = file_p (state_of r)"
  by (cases r) simp_all

lemma file_p_delete: "file_p (state_of (delete_p popts t)) = file_p t"
proof -
  have "file_p (state_of (and_then r (\<lambda>s. and_then (fs_call_p (unlinkSync (get_file_p s)) s)
      (\<lambda>s. Returned (emit_p (Emit ''delete'') s))))) = file_p (state_of r)" for r
    by (cases r) (simp_all add: fs_call_p_def emit_p_def split: sum.split)
  then show ?thesis
    using file_p_close [of "get_options t ++ popts" t]
    by (simp add: delete_p_def Let_def)
qed

lemma file_p_open: "file_p (state_of (open_p popts t)) = file_p t"
proof -
  have "file_p (state_of (and_then r (\<lambda>s. if online_p s then Returned s
      else (case createWriteStream (get_file_p s) (world_p (emit_p (Emit ''beforeOpen'') s)) of
         (st, w) \<Rightarrow> Returned (emit_p (Emit ''open'') (s\<lparr>stream_p := Some st, world_p := w\<rparr>)))))) =
      file_p (state_of r)" for r
    by (cases r) (simp_all add: emit_p_def split: prod.split)
  then show ?thesis
    using file_p_create [of "get_options t ++ popts" t]
    by (simp add: open_p_def Let_def)
qed

lemma file_p_set_options: "file_p (state_of (set_options opts t)) = file_p t"
  by (simp add: set_options_def Let_def)

text \<open>
  Claim C7, as amended. In \<^verbatim>\<open>src/unnamed/part_000\<close> the stored path is computed when the path is
  assigned (the constructor assigns it), by resolving the input against the working directory
  of that moment; it is normalized when that directory is; a later change of the working
  directory does not change what the getter returns, and neither do the setter of the options
  nor \<open>create\<close>, \<open>open\<close>, \<open>close\<close> and \<open>delete\<close>. In \<^verbatim>\<open>src/classes/Log.js\<close> the instance stores the
  input as given and the getter resolves it at every read against the working directory of
  that read: two reads agree when the input is absolute (or the directory has not changed).
\<close>

theorem path_resolved:
  "get_file_p (set_file input t) = resolve (cwd (world_p t)) input
   \<and> get_file_p ((set_file input t)\<lparr>world_p := chdir d (world_p (set_file input t))\<rparr>)
       = resolve (cwd (world_p t)) input
   \<and> (normalized (cwd (world_p t)) \<longrightarrow> normalized (get_file_p (set_file input t)))
   \<and> (new_Log_p input opts w = Returned t' \<longrightarrow> get_file_p t' = resolve (cwd w) input)
   \<and> get_file_p (state_of (set_options opts t)) = get_file_p t
   \<and> get_file_p (state_of (create_p popts t)) = get_file_p t
   \<and> get_file_p (state_of (open_p popts t)) = get_file_p t
   \<and> get_file_p (state_of (close_p popts t)) = get_file_p t
   \<and> get_file_p (on_close_p t) = get_file_p t
   \<and> get_file_p (state_of (delete_p popts t)) = get_file_p t
   \<and> get_file s = resolve (cwd (world s)) (file_opt (options s))
   \<and> get_file (s\<lparr>world := chdir d (world s)\<rparr>) = resolve d (file_opt (options s))
   \<and> (file_opt (options s) = CHR ''/'' # rest \<longrightarrow>
        get_file (s\<lparr>world := chdir d (world s)\<rparr>) = get_file s)"
proof -
  have n: "new_Log_p input opts w = Returned t' \<longrightarrow> get_file_p t' = resolve (cwd w) input"
    by (auto simp: new_Log_p_def set_options_def set_file_def get_file_p_def Let_def
        split: if_splits)
  have a: "file_opt (options s) = CHR ''/'' # rest \<longrightarrow>
        get_file (s\<lparr>world := chdir d (world s)\<rparr>) = get_file s"
    using resolve_absolute [of d rest "cwd (world s)"] by (simp add: get_file_def chdir_def)
  show ?thesis
    using n a
    by (simp add: get_file_p_def file_p_set_options file_p_create file_p_open file_p_close
        file_p_delete normalized_resolve)
      (simp add: set_file_def chdir_def on_close_p_def emit_p_def get_file_def normalized_resolve)
qed

theorem path_resolved_witness:
  "normalized (cwd (world_p log0_p))
   \<and> new_Log_p ''app.log'' (JObject []) world0 = Returned log0_p
   \<and> get_file_p log0_p = [''srv'', ''app.log'']
   \<and> get_file_p (log0_p\<lparr>world_p := chdir [] (world_p log0_p)\<rparr>) = [''srv'', ''app.log'']
   \<and> normalized (get_file_p (set_file ''./logs//../app.log'' log0_p))
   \<and> get_file_p (set_file ''./logs//../app.log'' log0_p) = [''srv'', ''app.log'']
   \<and> file_opt (options log3) = ''/var/x.log''
   \<and> get_file log3 = [''var'', ''x.log'']
   \<and> get_file (log3\<lparr>world := chdir [] (world log3)\<rparr>) = [''var'', ''x.log'']"
proof -
  have c: "normalized (cwd (world_p log0_p))"
    by (simp add: log0_p_eq world0_def normalized_def)
  have r: "new_Log_p ''app.log'' (JObject []) world0 = Returned log0_p"
    by (simp add: log0_p_def new_Log_p_def set_options_def Let_def)
  have e: "resolve [''srv''] ''./logs//../app.log'' = [''srv'', ''app.log'']"
    "resolve [''srv''] ''/var/x.log'' = [''var'', ''x.log'']"
    by (simp_all add: resolve_def enter_def)
  have w: "cwd (world_p log0_p) = [''srv'']" "cwd world0 = [''srv'']" "cwd (world log3) = [''srv'']"
    by (simp_all add: log0_p_eq world0_def log3_def log0_def)
  have l: "file_opt (options log3) = CHR ''/'' # ''var/x.log''"
    by (simp add: log3_def)
  note p = path_resolved [where input = "''./logs//../app.log''" and t = log0_p and d = "[]"
      and opts = "JObject []" and w = world0 and t' = log0_p and popts = no_options
      and s = log3 and rest = "''var/x.log''"]
  note q = path_resolved [where input = "''app.log''" and t = log0_p and d = "[]"
      and opts = "JObject []" and w = world0 and t' = log0_p and popts = no_options
      and s = log3 and rest = "''var/x.log''"]
  have x1: "get_file_p log0_p = [''srv'', ''app.log'']"
    using q r by (simp add: w resolve_examples)
  have x2: "normalized (get_file_p (set_file ''./logs//../app.log'' log0_p))"
    using p c by blast
  have y2: "get_file_p (set_file ''./logs//../app.log'' log0_p) = [''srv'', ''app.log'']"
    using p by (simp add: w e)
  have x3: "get_file log3 = [''var'', ''x.log'']"
    using p by (simp add: w e l)
  have "get_file (log3\<lparr>world := chdir [] (world log3)\<rparr>) = get_file log3"
    using p l by blast
  then have x4: "get_file (log3\<lparr>world := chdir [] (world log3)\<rparr>) = [''var'', ''x.log'']"
    using x3 by simp
  show ?thesis
    using c r x1 x2 y2 x3 x4 l by (simp add: get_file_p_def)
qed

text \<open>The claim as stated fails on \<^verbatim>\<open>src/classes/Log.js\<close>: the same instance, read once in
  \<open>/srv\<close> and once after the working directory has become the root, gives two paths.\<close>

theorem path_reread_counterexample:
  "options log0_moved = options log0
   \<and> get_file log0 = [''srv'', ''app.log'']
   \<and> get_file log0_moved = [''app.log'']
   \<and> get_file log0_moved \<noteq> get_file log0"
  by (simp add: log0_moved_def log0_fields get_file_def chdir_def)
    (simp add: log0_def world0_def resolve_def enter_def)

subsection \<open>The policy flags of write\<close>

text \<open>
  Claim C1 does not hold of \<open>write\<close> in \<^verbatim>\<open>src/classes/Log.js\<close>: the two gates read \<open>autoCreate\<close> and
  \<open>autoOpen\<close> from the options of the instance, not from the merged options. With the flag off
  on the instance and on in the per-call options (so on in the merged options), \<open>write\<close> throws
  the missing-file error on an absent file, and the not-open error on a closed stream.
\<close>

theorem write_reads_instance_flags:
  "\<not> get_exists log1 \<and> autoCreate (assign (options log1) [AutoCreate True])
   \<and> write_log [AutoCreate True] [] log1 = Threw MissingFileError log1
   \<and> get_exists log0 \<and> stream log0 = None \<and> autoOpen (assign (options log0) [AutoOpen True])
   \<and> write_log [AutoOpen True] [] log0 = Threw NotOpenError log0"
proof -
  have f: "formatterParameters (assign (options log1) [AutoCreate True]) = 0"
    "formatterParameters (assign (options log0) [AutoOpen True]) = 0"
    "\<not> autoCreate (options log1)" "\<not> autoOpen (options log0)"
    by (simp_all add: assign_def log1_def log0_def)
  have h: "log1\<lparr>heap := (heap log1)(0 := assign_array (heap log1 0) [])\<rparr> = log1"
    "log0\<lparr>heap := (heap log0)(0 := assign_array (heap log0 0) [])\<rparr> = log0"
    by (simp_all add: log1_def log0_def assign_array_def fun_eq_iff)
  have a: "write_log [AutoCreate True] [] log1 = Threw MissingFileError log1"
    by (simp add: write_log_def Let_def f h log1_fields MissingFileError_def)
  have b: "write_log [AutoOpen True] [] log0 = Threw NotOpenError log0"
    by (simp add: write_log_def Let_def f h log0_fields NotOpenError_def)
  show ?thesis
    using a b by (simp add: log0_fields log1_fields assign_def)
qed

theorem write_reads_instance_flags_witness:
  "autoCreate (assign (options log1) [AutoCreate True])
   \<and> state_of (write_log [AutoCreate True] [] log1) = log1
   \<and> \<not> get_exists (state_of (write_log [AutoCreate True] [] log1))
   \<and> stream (state_of (write_log [AutoOpen True] [] log0)) = None"
  using write_reads_instance_flags by simp

subsection \<open>Validation of the options\<close>

text \<open>
  Claim C6 does not hold of the setter \<open>options\<close> in \<^verbatim>\<open>src/unnamed/part_000\<close>: the type test is
  \<open>instanceof Boolean\<close>, which no primitive boolean passes. The primitive \<open>false\<close> supplied for
  \<open>automaticClose\<close> is replaced by the default \<open>true\<close>; only a \<open>Boolean\<close> object is kept.
\<close>

theorem primitive_flag_replaced:
  "typeof (get_key close_off ''automaticClose'') = ''boolean''
   \<and> get_key close_off ''automaticClose'' = JBool False
   \<and> property (get_options (state_of (new_Log_p ''app.log'' close_off world0))) ''automaticClose''
       = JBool True
   \<and> property (get_options (state_of (set_options close_off log0_p))) ''automaticClose''
       = JBool True
   \<and> property (get_options (state_of (set_options close_off_object log0_p))) ''automaticClose''
       = JBoolean False"
  by (simp add: close_off_def close_off_object_def new_Log_p_def set_options_def Let_def
      get_options_def property_def defaultOptions_def)

theorem primitive_flag_replaced_witness:
  "truthy (property (get_options (state_of (set_options close_off log0_p))) ''automaticClose'')
   \<and> \<not> truthy (get_key close_off ''automaticClose'')"
  using primitive_flag_replaced by simp

lemma primitive_flag_never_kept:
  "get_key opts key = JBool b \<Longrightarrow> snd (parse_option opts (key, Boolean, dflt)) = dflt"
  by simp

lemma function_option_kept:
  "has_key opts key \<Longrightarrow> get_key opts key = JFunction f \<Longrightarrow>
     snd (parse_option opts (key, Function, dflt)) = JFunction f"
  by simp

subsection \<open>The formatter parameters of write\<close>

lemma unchanged_refl: "unchanged s s"
  by (simp add: unchanged_def)

lemma unchanged_trans: "unchanged s x \<Longrightarrow> unchanged x y \<Longrightarrow> unchanged s y"
  by (simp add: unchanged_def)

lemma unchanged_emit: "unchanged s (emit ev s)"
  by (simp add: unchanged_def emit_def)

lemma unchanged_and_then:
  assumes "unchanged s (state_of r)" and "\<And>x. unchanged x (state_of (f x))"
  shows "unchanged s (state_of (and_then r f))"
proof (cases r)
  case (Returned x)
  with assms(1) assms(2) [of x] show ?thesis by (simp add: unchanged_def)
next
  case (Threw e x)
  with assms(1) show ?thesis by simp
qed

lemma and_then_Returned:
  "and_then r f = Returned y \<Longrightarrow> \<exists>x. r = Returned x \<and> f x = Returned y"
  by (cases r) simp_all

lemma mkdirSync_cwd: "mkdirSync d b w = Inr w' \<Longrightarrow> cwd w' = cwd w"
  by (auto simp: mkdirSync_def split: if_splits)

lemma openSync_cwd: "openSync p w = Inr w' \<Longrightarrow> cwd w' = cwd w"
  by (auto simp: openSync_def split: option.splits if_splits)

lemma unchanged_fs_call:
  assumes "\<And>w'. f (world s) = Inr w' \<Longrightarrow> cwd w' = cwd (world s)"
  shows "unchanged s (state_of (fs_call f s))"
proof (cases "f (world s)")
  case (Inl e)
  then show ?thesis by (simp add: fs_call_def unchanged_def)
next
  case (Inr w')
  with assms [of w'] show ?thesis by (simp add: fs_call_def unchanged_def)
qed

lemma unchanged_get_file: "unchanged s s' \<Longrightarrow> get_file s' = get_file s"
  by (simp add: unchanged_def get_file_def)

lemma create_split:
  "create opts s =
     (if get_exists s then Returned s
      else and_then
        (if existsSync (dirname (get_file (emit (Emit ''beforeCreate'') s)))
              (world (emit (Emit ''beforeCreate'') s))
         then Returned (emit (Emit ''beforeCreate'') s)
         else fs_call (mkdirSync (dirname (get_file (emit (Emit ''beforeCreate'') s)))
                (recursive (assign (options s) opts))) (emit (Emit ''beforeCreate'') s))
        (\<lambda>x. and_then (fs_call (openSync (get_file x)) x) (\<lambda>y. Returned (emit (Emit ''create'') y))))"
  unfolding create_def Let_def by (simp only: and_then.simps)

lemma create_unchanged: "unchanged s (state_of (create opts s))"
proof (cases "get_exists s")
  case True
  then show ?thesis by (simp add: create_split unchanged_refl)
next
  case False
  let ?s = "emit (Emit ''beforeCreate'') s"
  have a: "unchanged ?s (state_of (if existsSync (dirname (get_file ?s)) (world ?s)
         then Returned ?s
         else fs_call (mkdirSync (dirname (get_file ?s)) (recursive (assign (options s) opts))) ?s))"
    using unchanged_fs_call [of "mkdirSync (dirname (get_file ?s)) (recursive (assign (options s) opts))" ?s]
    by (simp add: unchanged_refl mkdirSync_cwd)
  have b: "unchanged x (state_of (and_then (fs_call (openSync (get_file x)) x)
      (\<lambda>y. Returned (emit (Emit ''create'') y))))" for x :: "'a log"
    by (rule unchanged_and_then) (simp_all add: unchanged_fs_call openSync_cwd unchanged_emit)
  have "unchanged ?s (state_of (create opts s))"
    unfolding create_split using False unchanged_and_then [OF a b] by simp
  with unchanged_emit [of s "Emit ''beforeCreate''"] show ?thesis
    by (rule unchanged_trans)
qed

lemma open_file_exists:
  assumes "and_then (fs_call (openSync (get_file x)) x) (\<lambda>y. Returned (emit (Emit ''create'') y))
    = Returned s'"
  shows "get_exists s'"
proof -
  from and_then_Returned [OF assms] obtain y
    where y: "fs_call (openSync (get_file x)) x = Returned y" "s' = emit (Emit ''create'') y"
    by auto
  from y(1) obtain w' where w: "openSync (get_file x) (world x) = Inr w'" "y = x\<lparr>world := w'\<rparr>"
    by (auto simp: fs_call_def split: sum.splits)
  from w(1) have "files w' (get_file x) = Some []" "cwd w' = cwd (world x)"
    by (auto simp: openSync_def split: option.splits if_splits)
  with w(2) y(2) show ?thesis
    by (simp add: get_exists_def get_file_def existsSync_def emit_def)
qed

lemma create_returned: "create opts s = Returned s' \<Longrightarrow> get_exists s'"
proof (cases "get_exists s")
  case True
  assume "create opts s = Returned s'"
  with True show ?thesis by (simp add: create_split)
next
  case False
  assume "create opts s = Returned s'"
  with False obtain x where
    "and_then (fs_call (openSync (get_file x)) x) (\<lambda>y. Returned (emit (Emit ''create'') y))
      = Returned s'"
    unfolding create_split by (auto dest: and_then_Returned)
  then show ?thesis by (rule open_file_exists)
qed

lemma createWriteStream_facts:
  "cwd (snd (createWriteStream p w)) = cwd w"
  "existsSync p w \<Longrightarrow> existsSync p (snd (createWriteStream p w))"
  by (auto simp: createWriteStream_def existsSync_def split: option.splits)

lemma stream_write_facts:
  "cwd (stream_write st c w) = cwd w"
  "existsSync p w \<Longrightarrow> existsSync p (stream_write st c w)"
  by (auto simp: stream_write_def existsSync_def split: option.splits)

lemma get_exists_emit: "get_exists (emit ev s) = get_exists s"
  by (simp add: get_exists_def get_file_def emit_def existsSync_def split: option.split)

lemma open_tail_unchanged:
  "unchanged x (state_of (case stream x of
        Some st \<Rightarrow> Returned x
      | None \<Rightarrow>
        and_then (Returned (emit (Emit ''beforeOpen'') x)) (\<lambda>s.
        case c s of
          Inl e \<Rightarrow> Threw e s
        | Inr content \<Rightarrow>
            (case createWriteStream (get_file s) (world s) of (st, w) \<Rightarrow>
               Returned (emit (Emit ''open'')
                 (s\<lparr>stream := Some (written st content), world := stream_write st content w\<rparr>))))))"
proof (cases "stream x")
  case (Some st)
  then show ?thesis by (simp add: unchanged_refl)
next
  case None
  define s where "s = emit (Emit ''beforeOpen'') x"
  obtain st w where c: "createWriteStream (get_file s) (world s) = (st, w)"
    by (cases "createWriteStream (get_file s) (world s)") auto
  have u: "unchanged x s"
    unfolding s_def by (rule unchanged_emit)
  have w: "cwd w = cwd (world s)"
    using createWriteStream_facts(1) [of "get_file s" "world s"] c by simp
  show ?thesis
  proof (cases "c s")
    case (Inl e)
    with None u show ?thesis by (simp add: s_def [symmetric])
  next
    case (Inr content)
    have "unchanged s (emit (Emit ''open'') (s\<lparr>stream := Some (written st content), world := stream_write st content w\<rparr>))"
      using w by (simp add: unchanged_def emit_def stream_write_facts(1))
    with u have "unchanged x (emit (Emit ''open'') (s\<lparr>stream := Some (written st content), world := stream_write st content w\<rparr>))"
      by (rule unchanged_trans)
    with None Inr c show ?thesis by (simp add: s_def [symmetric])
  qed
qed

lemma open_tail_returned:
  assumes "get_exists x"
    and "(case stream x of
        Some st \<Rightarrow> Returned x
      | None \<Rightarrow>
        and_then (Returned (emit (Emit ''beforeOpen'') x)) (\<lambda>s.
        case c s of
          Inl e \<Rightarrow> Threw e s
        | Inr content \<Rightarrow>
            (case createWriteStream (get_file s) (world s) of (st, w) \<Rightarrow>
               Returned (emit (Emit ''open'')
                 (s\<lparr>stream := Some (written st content), world := stream_write st content w\<rparr>))))) = Returned y"
  shows "get_exists y \<and> stream y \<noteq> None"
proof (cases "stream x")
  case (Some st)
  with assms show ?thesis by simp
next
  case None
  define s where "s = emit (Emit ''beforeOpen'') x"
  obtain st w where c: "createWriteStream (get_file s) (world s) = (st, w)"
    by (cases "createWriteStream (get_file s) (world s)") auto
  have e: "get_exists s"
    using assms(1) by (simp add: s_def get_exists_emit)
  from c have w: "cwd w = cwd (world s)" "existsSync (get_file s) w"
    using createWriteStream_facts(1,2) [of "get_file s" "world s"] e
    by (simp_all add: get_exists_def)
  show ?thesis
  proof (cases "c s")
    case (Inl e)
    with None assms(2) show ?thesis by (simp add: s_def [symmetric])
  next
    case (Inr content)
    with None c assms(2)
    have y: "y = emit (Emit ''open'') (s\<lparr>stream := Some (written st content), world := stream_write st content w\<rparr>)"
      by (simp add: s_def [symmetric])
    have "existsSync (get_file s) (stream_write st content w)"
      using w(2) by (rule stream_write_facts(2))
    moreover have "cwd (stream_write st content w) = cwd (world s)"
      using w(1) by (simp add: stream_write_facts(1))
    ultimately have "get_exists (s\<lparr>stream := Some (written st content), world := stream_write st content w\<rparr>)"
      by (simp add: get_exists_def get_file_def)
    then show ?thesis
      by (simp add: y get_exists_emit) (simp add: emit_def)
  qed
qed

lemma open_unchanged: "unchanged s (state_of (open_log opts s))"
  unfolding open_log_def Let_def
proof (rule unchanged_and_then)
  show "unchanged s (state_of (if get_exists s then Returned s
        else if autoCreate (assign (options s) opts)
             then create (entries (assign (options s) opts)) s
             else Threw (Error ''Log file does not exist'') s))"
    by (simp add: unchanged_refl create_unchanged)
qed (rule open_tail_unchanged)

lemma open_returned:
  assumes "open_log opts s = Returned s'"
  shows "get_exists s' \<and> stream s' \<noteq> None"
proof -
  from assms obtain x where
    x: "(if get_exists s then Returned s
         else if autoCreate (assign (options s) opts)
              then create (entries (assign (options s) opts)) s
              else Threw (Error ''Log file does not exist'') s) = Returned x"
    and k: "(case stream x of
        Some st \<Rightarrow> Returned x
      | None \<Rightarrow>
        and_then (Returned (emit (Emit ''beforeOpen'') x)) (\<lambda>s'.
        case (if truncate_opt (assign (options s) opts) then Inr [] else get_content s') of
          Inl e \<Rightarrow> Threw e s'
        | Inr content \<Rightarrow>
            (case createWriteStream (get_file s') (world s') of (st, w) \<Rightarrow>
               Returned (emit (Emit ''open'')
                 (s'\<lparr>stream := Some (written st content), world := stream_write st content w\<rparr>))))) = Returned s'"
    unfolding open_log_def Let_def by (blast dest: and_then_Returned)
  from x have "get_exists x"
    by (auto split: if_splits dest: create_returned)
  then show ?thesis using k by (rule open_tail_returned)
qed

lemma write_tail_unchanged:
  "unchanged x (state_of (case f x of
        Inl e \<Rightarrow> Threw e x
      | Inr entry \<Rightarrow>
          (case stream x of
             None \<Rightarrow> Threw (TypeError ''Cannot read properties of null'') x
           | Some st \<Rightarrow>
               Returned (emit (EmitText ''write'' entry)
                 (x\<lparr>stream := Some (written st entry), world := stream_write st entry (world x)\<rparr>)))))"
proof (cases "f x")
  case (Inl e)
  then show ?thesis by (simp add: unchanged_refl)
next
  case (Inr entry)
  show ?thesis
  proof (cases "stream x")
    case None
    with Inr show ?thesis by (simp add: unchanged_refl)
  next
    case (Some st)
    with Inr show ?thesis
      by (simp add: unchanged_def emit_def stream_write_facts(1))
  qed
qed

lemma write_tail_returned:
  assumes "get_exists x" and "stream x \<noteq> None"
    and "(case f x of
        Inl e \<Rightarrow> Threw e x
      | Inr entry \<Rightarrow>
          (case stream x of
             None \<Rightarrow> Threw (TypeError ''Cannot read properties of null'') x
           | Some st \<Rightarrow>
               Returned (emit (EmitText ''write'' entry)
                 (x\<lparr>stream := Some (written st entry), world := stream_write st entry (world x)\<rparr>)))) = Returned y"
  shows "get_exists y \<and> stream y \<noteq> None"
proof -
  from assms(2) obtain st where st: "stream x = Some st" by auto
  from assms(3) st obtain entry where
    y: "y = emit (EmitText ''write'' entry) (x\<lparr>stream := Some (written st entry), world := stream_write st entry (world x)\<rparr>)"
    by (cases "f x") auto
  have "existsSync (get_file x) (stream_write st entry (world x))"
    using assms(1) unfolding get_exists_def by (rule stream_write_facts(2))
  then have "get_exists (x\<lparr>stream := Some (written st entry), world := stream_write st entry (world x)\<rparr>)"
    by (simp add: get_exists_def get_file_def stream_write_facts(1))
  then show ?thesis
    using st by (simp add: y get_exists_emit) (simp add: emit_def)
qed

lemma write_unchanged:
  "unchanged (s\<lparr>heap := (heap s)(formatterParameters (assign (options s) opts) :=
        assign_array (heap s (formatterParameters (assign (options s) opts))) rest)\<rparr>)
     (state_of (write_log opts rest s))"
  unfolding write_log_def Let_def
proof (rule unchanged_and_then)
  fix x :: "'a log"
  show "unchanged x (state_of (and_then
      (case stream x of
         Some st \<Rightarrow> Returned x
       | None \<Rightarrow> if autoOpen (options x)
                 then open_log (entries (assign (options s) opts)) x
                 else Threw (Error ''Write stream is is not opened'') x)
      (\<lambda>s'. and_then (Returned (emit (Emit ''beforeWrite'') s'))
         (\<lambda>s'. case formatter (assign (options s) opts)
                      (heap s' (formatterParameters (assign (options s) opts))) of
                 Inl e \<Rightarrow> Threw e s'
               | Inr entry \<Rightarrow>
                   (case stream s' of
                      None \<Rightarrow> Threw (TypeError ''Cannot read properties of null'') s'
                    | Some st \<Rightarrow>
                        Returned (emit (EmitText ''write'' entry)
                          (s'\<lparr>stream := Some (written st entry), world := stream_write st entry (world s')\<rparr>)))))))"
  proof (rule unchanged_and_then)
    show "unchanged x (state_of (case stream x of
         Some st \<Rightarrow> Returned x
       | None \<Rightarrow> if autoOpen (options x)
                 then open_log (entries (assign (options s) opts)) x
                 else Threw (Error ''Write stream is is not opened'') x))"
      by (simp add: unchanged_refl open_unchanged split: option.split)
  next
    fix y :: "'a log"
    have "unchanged (emit (Emit ''beforeWrite'') y) (state_of
        (case formatter (assign (options s) opts)
                      (heap (emit (Emit ''beforeWrite'') y)
                         (formatterParameters (assign (options s) opts))) of
                 Inl e \<Rightarrow> Threw e (emit (Emit ''beforeWrite'') y)
               | Inr entry \<Rightarrow>
                   (case stream (emit (Emit ''beforeWrite'') y) of
                      None \<Rightarrow> Threw (TypeError ''Cannot read properties of null'')
                                (emit (Emit ''beforeWrite'') y)
                    | Some st \<Rightarrow>
                        Returned (emit (EmitText ''write'' entry)
                          ((emit (Emit ''beforeWrite'') y)
                             \<lparr>stream := Some (written st entry), world := stream_write st entry
                                (world (emit (Emit ''beforeWrite'') y))\<rparr>)))))"
      by (rule write_tail_unchanged)
    with unchanged_emit [of y "Emit ''beforeWrite''"]
    show "unchanged y (state_of (and_then (Returned (emit (Emit ''beforeWrite'') y))
         (\<lambda>s'. case formatter (assign (options s) opts)
                      (heap s' (formatterParameters (assign (options s) opts))) of
                 Inl e \<Rightarrow> Threw e s'
               | Inr entry \<Rightarrow>
                   (case stream s' of
                      None \<Rightarrow> Threw (TypeError ''Cannot read properties of null'') s'
                    | Some st \<Rightarrow>
                        Returned (emit (EmitText ''write'' entry)
                          (s'\<lparr>stream := Some (written st entry), world := stream_write st entry (world s')\<rparr>))))))"
      unfolding and_then.simps by (rule unchanged_trans)
  qed
qed (simp add: unchanged_refl create_unchanged)

lemma write_log_frame:
  "options (state_of (write_log opts rest s)) = options s
   \<and> heap (state_of (write_log opts rest s)) =
       (heap s)(formatterParameters (assign (options s) opts) :=
          assign_array (heap s (formatterParameters (assign (options s) opts))) rest)"
  using write_unchanged [of s opts rest] by (simp add: unchanged_def)

lemma write_log_returned:
  assumes "write_log opts rest s = Returned s'"
  shows "get_exists s' \<and> stream s' \<noteq> None"
proof -
  define s1 where "s1 = s\<lparr>heap := (heap s)(formatterParameters (assign (options s) opts) :=
        assign_array (heap s (formatterParameters (assign (options s) opts))) rest)\<rparr>"
  from assms obtain x1 x2 where
    x1: "(if get_exists s1 then Returned s1
          else if autoCreate (options s1) then create (entries (assign (options s) opts)) s1
          else Threw (Error ''Log file does not exist'') s1) = Returned x1"
    and x2: "(case stream x1 of
         Some st \<Rightarrow> Returned x1
       | None \<Rightarrow> if autoOpen (options x1)
                 then open_log (entries (assign (options s) opts)) x1
                 else Threw (Error ''Write stream is is not opened'') x1) = Returned x2"
    and k: "(case formatter (assign (options s) opts)
                      (heap (emit (Emit ''beforeWrite'') x2)
                         (formatterParameters (assign (options s) opts))) of
                 Inl e \<Rightarrow> Threw e (emit (Emit ''beforeWrite'') x2)
               | Inr entry \<Rightarrow>
                   (case stream (emit (Emit ''beforeWrite'') x2) of
                      None \<Rightarrow> Threw (TypeError ''Cannot read properties of null'')
                                (emit (Emit ''beforeWrite'') x2)
                    | Some st \<Rightarrow>
                        Returned (emit (EmitText ''write'' entry)
                          ((emit (Emit ''beforeWrite'') x2)
                             \<lparr>stream := Some (written st entry), world := stream_write st entry
                                (world (emit (Emit ''beforeWrite'') x2))\<rparr>)))) = Returned s'"
    unfolding write_log_def Let_def s1_def [symmetric]
    by (fastforce dest!: and_then_Returned)
  from x1 have e1: "get_exists x1"
    by (auto split: if_splits dest: create_returned)
  have e2: "get_exists x2 \<and> stream x2 \<noteq> None"
  proof (cases "stream x1")
    case None
    with x2 show ?thesis by (auto split: if_splits dest: open_returned)
  next
    case (Some st)
    with x2 e1 show ?thesis by auto
  qed
  then have "get_exists (emit (Emit ''beforeWrite'') x2)"
    "stream (emit (Emit ''beforeWrite'') x2) \<noteq> None"
    by (simp_all add: get_exists_emit) (simp add: emit_def)
  then show ?thesis using k by (rule write_tail_returned)
qed

lemma write_log_ready:
  assumes "get_exists s" and "stream s = Some st"
    and "formatter (assign (options s) opts)
           (assign_array (heap s (formatterParameters (assign (options s) opts))) rest) = r"
  shows "write_log opts rest s =
     (case r of
        Inl e \<Rightarrow> Threw e (emit (Emit ''beforeWrite'')
                   (s\<lparr>heap := (heap s)(formatterParameters (assign (options s) opts) :=
                      assign_array (heap s (formatterParameters (assign (options s) opts))) rest)\<rparr>))
      | Inr entry \<Rightarrow> Returned (emit (EmitText ''write'' entry)
          ((emit (Emit ''beforeWrite'')
             (s\<lparr>heap := (heap s)(formatterParameters (assign (options s) opts) :=
                assign_array (heap s (formatterParameters (assign (options s) opts))) rest)\<rparr>))
           \<lparr>stream := Some (written st entry), world := stream_write st entry (world (emit (Emit ''beforeWrite'') s))\<rparr>)))"
proof -
  define s1 where "s1 = s\<lparr>heap := (heap s)(formatterParameters (assign (options s) opts) :=
        assign_array (heap s (formatterParameters (assign (options s) opts))) rest)\<rparr>"
  have g: "get_exists s1" "stream s1 = Some st"
    "stream (emit (Emit ''beforeWrite'') s1) = Some st"
    "heap (emit (Emit ''beforeWrite'') s1) (formatterParameters (assign (options s) opts))
      = assign_array (heap s (formatterParameters (assign (options s) opts))) rest"
    "world (emit (Emit ''beforeWrite'') s1) = world (emit (Emit ''beforeWrite'') s)"
    using assms(1,2) by (simp_all add: s1_def get_exists_def get_file_def emit_def)
  show ?thesis
    unfolding write_log_def Let_def s1_def [symmetric]
    by (cases r) (simp_all add: g assms(3))
qed

text \<open>
  Claim C10. Let the merged options of a call \<open>write(options, p1..pn)\<close> hold the array of the
  instance as \<open>formatterParameters\<close> (the per-call options bring no array of their own). Then
  the call, whether it returns or throws, overwrites that array in place by index with the rest
  parameters and leaves the options of the instance, and so the reference to the array, as
  they were. If the call returns, a following such call with fewer rest parameters passes the
  gates and invokes the formatter with its own parameters followed by the remaining ones of
  the earlier call (the parameter at the first index it does not overwrite is the earlier
  call's): it returns with the formatter's entry as the payload of the last event, or throws
  what the formatter throws.
\<close>

theorem formatter_parameters_persist:
  fixes s :: "'p log"
  assumes "formatterParameters (assign (options s) opts) = formatterParameters (options s)"
  shows "heap (state_of (write_log opts rest s)) (formatterParameters (options s))
           = rest @ drop (length rest) (heap s (formatterParameters (options s)))
     \<and> options (state_of (write_log opts rest s)) = options s
     \<and> (write_log opts rest s = Returned s1
          \<and> formatterParameters (assign (options s1) opts2) = formatterParameters (options s1)
          \<and> length rest2 < length rest \<longrightarrow>
          (rest2 @ drop (length rest2) rest
             @ drop (length rest) (heap s (formatterParameters (options s)))) ! length rest2
            = rest ! length rest2
          \<and> (case formatter (assign (options s1) opts2)
                    (rest2 @ drop (length rest2) rest
                       @ drop (length rest) (heap s (formatterParameters (options s)))) of
                Inr entry \<Rightarrow>
                  (\<exists>s2. write_log opts2 rest2 s1 = Returned s2
                      \<and> last (emitted (world s2)) = EmitText ''write'' entry)
              | Inl e \<Rightarrow> (\<exists>s2. write_log opts2 rest2 s1 = Threw e s2)))"
proof -
  let ?a = "formatterParameters (options s)"
  let ?old = "heap s ?a"
  have f: "options (state_of (write_log opts rest s)) = options s"
    "heap (state_of (write_log opts rest s)) ?a = rest @ drop (length rest) ?old"
    using write_log_frame [of opts rest s] assms by (simp_all add: assign_array_def)
  have second: "(rest2 @ drop (length rest2) rest @ drop (length rest) ?old) ! length rest2
            = rest ! length rest2
          \<and> (case formatter (assign (options s1) opts2)
                    (rest2 @ drop (length rest2) rest @ drop (length rest) ?old) of
                Inr entry \<Rightarrow>
                  (\<exists>s2. write_log opts2 rest2 s1 = Returned s2
                      \<and> last (emitted (world s2)) = EmitText ''write'' entry)
              | Inl e \<Rightarrow> (\<exists>s2. write_log opts2 rest2 s1 = Threw e s2))"
    if r: "write_log opts rest s = Returned s1"
      and o: "formatterParameters (assign (options s1) opts2) = formatterParameters (options s1)"
      and l: "length rest2 < length rest"
  proof -
    from f r have s1: "options s1 = options s" "heap s1 ?a = rest @ drop (length rest) ?old"
      by simp_all
    from write_log_returned [OF r] obtain st where g: "get_exists s1" "stream s1 = Some st"
      by auto
    have args: "assign_array (heap s1 (formatterParameters (assign (options s1) opts2))) rest2
        = rest2 @ drop (length rest2) rest @ drop (length rest) ?old"
      using o s1 l by (simp add: assign_array_def)
    have n: "(rest2 @ drop (length rest2) rest @ drop (length rest) ?old) ! length rest2
        = rest ! length rest2"
      using l by (simp add: nth_append)
    note wr = write_log_ready [OF g refl, of opts2 rest2, unfolded args]
    have "case formatter (assign (options s1) opts2)
                    (rest2 @ drop (length rest2) rest @ drop (length rest) ?old) of
                Inr entry \<Rightarrow>
                  (\<exists>s2. write_log opts2 rest2 s1 = Returned s2
                      \<and> last (emitted (world s2)) = EmitText ''write'' entry)
              | Inl e \<Rightarrow> (\<exists>s2. write_log opts2 rest2 s1 = Threw e s2)"
      by (cases "formatter (assign (options s1) opts2)
                    (rest2 @ drop (length rest2) rest @ drop (length rest) ?old)")
        (simp_all add: wr emit_def)
    with n show ?thesis by simp
  qed
  from f second show ?thesis by blast
qed

theorem formatter_parameters_persist_witness:
  "formatterParameters (assign (options log2) []) = formatterParameters (options log2)
   \<and> heap log2 (formatterParameters (options log2)) = []
   \<and> write_log [] [''a'', ''b''] log2 = Returned (state_of (write_log [] [''a'', ''b''] log2))
   \<and> heap (state_of (write_log [] [''a'', ''b''] log2)) (formatterParameters (options log2))
       = [''a'', ''b'']
   \<and> heap (state_of (write_log [] [''c''] (state_of (write_log [] [''a'', ''b''] log2))))
        (formatterParameters (options log2)) = [''c'', ''b'']
   \<and> last (emitted (world (state_of (write_log [] [''c'']
        (state_of (write_log [] [''a'', ''b''] log2)))))) = EmitText ''write'' ''cb''"
proof -
  define s1 where "s1 = state_of (write_log [] [''a'', ''b''] log2)"
  have a: "formatterParameters (assign (options log2) []) = formatterParameters (options log2)"
    by (simp add: assign_def)
  have h: "heap log2 (formatterParameters (options log2)) = []"
    by (simp add: log2_def log0_def)
  have fm: "formatter (options log2) = (\<lambda>args. Inr (concat args))"
    by (simp add: log2_def log0_def)
  have "formatter (assign (options log2) [])
      (assign_array (heap log2 (formatterParameters (assign (options log2) []))) [''a'', ''b''])
      = Inr ''ab''"
    by (simp add: assign_def fm h assign_array_def)
  note write_log_ready [OF log2_fields(4) log2_fields(2) this]
  then have r: "write_log [] [''a'', ''b''] log2 = Returned s1"
    unfolding s1_def by simp
  note p = formatter_parameters_persist [OF a, of "[''a'', ''b'']" s1 "[]" "[''c'']"]
  have o1: "options s1 = options log2"
    and h1: "heap s1 (formatterParameters (options log2)) = [''a'', ''b'']"
    using p by (simp_all add: h s1_def)
  have b: "formatterParameters (assign (options s1) []) = formatterParameters (options s1)"
    by (simp add: assign_def)
  have c: "formatter (assign (options s1) []) [''c'', ''b''] = Inr ''cb''"
    by (simp add: assign_def o1 fm)
  have "\<exists>s2. write_log [] [''c''] s1 = Returned s2
      \<and> last (emitted (world s2)) = EmitText ''write'' ''cb''"
    using p r b c by (simp add: h)
  then have e2: "last (emitted (world (state_of (write_log [] [''c''] s1)))) = EmitText ''write'' ''cb''"
    by auto
  have b2: "formatterParameters (assign (options s1) []) = formatterParameters (options s1)"
    by (simp add: assign_def)
  have h2: "heap (state_of (write_log [] [''c''] s1)) (formatterParameters (options log2))
      = [''c'', ''b'']"
    using formatter_parameters_persist [OF b2, of "[''c'']" s1 "[]" "[]"] h1 o1
    by simp
  show ?thesis
    using a h r h1 h2 e2 unfolding s1_def by simp
qed

subsection \<open>Opening\<close>

lemma get_file_emit: "get_file (emit ev s) = get_file s"
  by (simp add: get_file_def emit_def)

lemma open_log_existing:
  assumes "files (world s) (get_file s) = Some c" and "stream s = None"
  shows "open_log opts s =
     Returned (emit (Emit ''open'')
       ((emit (Emit ''beforeOpen'') s)
          \<lparr>stream := Some (written (fst (createWriteStream (get_file s) (world (emit (Emit ''beforeOpen'') s))))
               (if truncate_opt (assign (options s) opts) then [] else decode (world s) c)),
            world := stream_write (fst (createWriteStream (get_file s) (world (emit (Emit ''beforeOpen'') s))))
               (if truncate_opt (assign (options s) opts) then [] else decode (world s) c)
               (snd (createWriteStream (get_file s) (world (emit (Emit ''beforeOpen'') s))))\<rparr>))"
proof -
  have e: "get_exists s"
    using assms(1) by (simp add: get_exists_def existsSync_def)
  have g: "get_content (emit (Emit ''beforeOpen'') s) = Inr (decode (world s) c)"
    using assms(1) by (simp add: get_content_def readFileSync_def emit_def get_file_def)
  have n: "stream (emit (Emit ''beforeOpen'') s) = None"
    using assms(2) by (simp add: emit_def)
  show ?thesis
    unfolding open_log_def Let_def
    by (cases "truncate_opt (assign (options s) opts)")
      (simp_all add: e assms(2) g split_beta get_file_emit)
qed

lemma open_p_existing:
  assumes "files (world_p t) (get_file_p t) = Some c" and "\<not> online_p t"
  shows "open_p popts t =
     Returned (emit_p (Emit ''open'')
       (t\<lparr>stream_p := Some (fst (createWriteStream (get_file_p t)
                                  (world_p (emit_p (Emit ''beforeOpen'') t)))),
          world_p := snd (createWriteStream (get_file_p t)
                            (world_p (emit_p (Emit ''beforeOpen'') t)))\<rparr>))"
proof -
  have "exists_p t"
    using assms(1) by (simp add: exists_p_def existsSync_def)
  then show ?thesis
    using assms(2) by (simp add: open_p_def Let_def split_beta)
qed

text \<open>
  Claim C5 does not hold of \<open>open\<close> in \<^verbatim>\<open>src/classes/Log.js\<close>. With \<open>truncate\<close> off in the merged
  options, \<open>open\<close> reads the content and writes it to the new stream, and the file is unchanged
  when \<open>open\<close> returns; but the stream has only been handed its open, and holds the content
  back. A \<open>close\<close> that follows at once destroys the stream with the content it holds, the open
  still completes, and the file is left empty. (If the event loop runs between \<open>open\<close> and
  \<open>close\<close>, the file holds the content again, decoded and encoded.) With \<open>truncate\<close> on, the file
  still holds its content when \<open>open\<close> returns and is emptied once the open completes. In
  \<^verbatim>\<open>src/unnamed/part_000\<close>, which has no option \<open>truncate\<close>, the file is emptied once the open
  completes, whatever the argument of \<open>open\<close>.
\<close>

theorem open_close_loses_content:
  "(files (world s) (get_file s) = Some c \<and> stream s = None \<and> pending (world s) = []
      \<and> \<not> truncate_opt (assign (options s) opts) \<longrightarrow>
      open_log opts s = Returned (state_of (open_log opts s))
      \<and> files (world (state_of (open_log opts s))) (get_file s) = Some c
      \<and> and_then (open_log opts s) close = Returned (state_of (and_then (open_log opts s) close))
      \<and> stream (state_of (and_then (open_log opts s) close)) = None
      \<and> files (world (settle (state_of (and_then (open_log opts s) close)))) (get_file s) = Some []
      \<and> files (world (settle (state_of (open_log opts s)))) (get_file s)
          = Some (encode (world s) (decode (world s) c)))
   \<and> (files (world s) (get_file s) = Some c \<and> stream s = None \<and> pending (world s) = []
      \<and> truncate_opt (assign (options s) opts) \<longrightarrow>
      open_log opts s = Returned (state_of (open_log opts s))
      \<and> files (world (state_of (open_log opts s))) (get_file s) = Some c
      \<and> files (world (settle (state_of (open_log opts s)))) (get_file s)
          = Some (encode (world s) []))
   \<and> (files (world_p t) (get_file_p t) = Some c \<and> \<not> online_p t \<and> pending (world_p t) = [] \<longrightarrow>
      open_p popts t = Returned (state_of (open_p popts t))
      \<and> files (world_p (state_of (open_p popts t))) (get_file_p t) = Some c
      \<and> files (world_p (settle_p (state_of (open_p popts t)))) (get_file_p t) = Some [])"
proof -
  have a: "open_log opts s = Returned (state_of (open_log opts s))
      \<and> files (world (state_of (open_log opts s))) (get_file s) = Some c
      \<and> and_then (open_log opts s) close = Returned (state_of (and_then (open_log opts s) close))
      \<and> stream (state_of (and_then (open_log opts s) close)) = None
      \<and> files (world (settle (state_of (and_then (open_log opts s) close)))) (get_file s) = Some []
      \<and> files (world (settle (state_of (open_log opts s)))) (get_file s)
          = Some (encode (world s) (decode (world s) c))"
    if h: "files (world s) (get_file s) = Some c" "stream s = None" "pending (world s) = []"
      "\<not> truncate_opt (assign (options s) opts)"
    using h
    by (simp add: open_log_existing [OF h(1,2)] createWriteStream_def written_def
        stream_write_def emit_def close_def settle_def run_pending_def flush_def settled_def)
  have b: "open_log opts s = Returned (state_of (open_log opts s))
      \<and> files (world (state_of (open_log opts s))) (get_file s) = Some c
      \<and> files (world (settle (state_of (open_log opts s)))) (get_file s)
          = Some (encode (world s) [])"
    if h: "files (world s) (get_file s) = Some c" "stream s = None" "pending (world s) = []"
      "truncate_opt (assign (options s) opts)"
    using h
    by (simp add: open_log_existing [OF h(1,2)] createWriteStream_def written_def
        stream_write_def emit_def settle_def run_pending_def flush_def settled_def)
  have c: "open_p popts t = Returned (state_of (open_p popts t))
      \<and> files (world_p (state_of (open_p popts t))) (get_file_p t) = Some c
      \<and> files (world_p (settle_p (state_of (open_p popts t)))) (get_file_p t) = Some []"
    if h: "files (world_p t) (get_file_p t) = Some c" "\<not> online_p t" "pending (world_p t) = []"
    using h
    by (simp add: open_p_existing [OF h(1,2)] createWriteStream_def emit_p_def settle_p_def
        run_pending_def flush_def settled_def)
  from a b c show ?thesis by blast
qed


lemma content_of_files:
  "files (world x) p = Some c \<Longrightarrow> get_file x = p \<Longrightarrow> decode (world x) = ascii
     \<Longrightarrow> get_content x = Inr c"
  by (simp add: get_content_def readFileSync_def ascii_def)

lemma content_p_of_files:
  "files (world_p x) p = Some c \<Longrightarrow> get_file_p x = p \<Longrightarrow> decode (world_p x) = ascii
     \<Longrightarrow> content_p x = Inr c"
  by (simp add: content_p_def readFileSync_def ascii_def)

lemma perform_frame:
  "cwd (perform w op) = cwd w" "decode (perform w op) = decode w" "encode (perform w op) = encode w"
  by (cases op; simp split: option.split)+

lemma foldl_perform_frame:
  "cwd (foldl perform w ops) = cwd w \<and> decode (foldl perform w ops) = decode w
   \<and> encode (foldl perform w ops) = encode w"
  by (induction ops arbitrary: w) (simp_all add: perform_frame)

lemma settle_frame:
  "get_file (settle s) = get_file s" "decode (world (settle s)) = decode (world s)"
  by (simp_all add: settle_def get_file_def flush_def run_pending_def foldl_perform_frame
      perform_frame split: option.split)

lemma settle_p_frame:
  "get_file_p (settle_p t) = get_file_p t" "decode (world_p (settle_p t)) = decode (world_p t)"
  by (simp_all add: settle_p_def get_file_p_def flush_def run_pending_def foldl_perform_frame
      perform_frame split: option.split)

lemma close_frame:
  "get_file (state_of (close s)) = get_file s"
  "decode (world (state_of (close s))) = decode (world s)"
  by (simp_all add: close_def get_file_def emit_def split: option.split)

lemma open_existing_frame:
  assumes "files (world s) (get_file s) = Some c" and "stream s = None"
  shows "get_file (state_of (open_log opts s)) = get_file s"
    and "decode (world (state_of (open_log opts s))) = decode (world s)"
    and "state_of (and_then (open_log opts s) close) = state_of (close (state_of (open_log opts s)))"
  by (simp_all add: open_log_existing [OF assms] createWriteStream_def stream_write_def emit_def
      get_file_def)

lemma open_p_existing_frame:
  assumes "files (world_p t) (get_file_p t) = Some c" and "\<not> online_p t"
  shows "get_file_p (state_of (open_p popts t)) = get_file_p t"
    and "decode (world_p (state_of (open_p popts t))) = decode (world_p t)"
  by (simp_all add: open_p_existing [OF assms] createWriteStream_def emit_p_def get_file_p_def)

theorem open_close_loses_content_witness:
  "files (world log0) (get_file log0) = Some ''old'' \<and> stream log0 = None
   \<and> pending (world log0) = []
   \<and> \<not> truncate_opt (assign (options log0) [Truncate False])
   \<and> get_content log0 = Inr ''old''
   \<and> get_content (state_of (open_log [Truncate False] log0)) = Inr ''old''
   \<and> get_content (settle (state_of (and_then (open_log [Truncate False] log0) close))) = Inr []
   \<and> get_content (settle (state_of (open_log [Truncate False] log0))) = Inr ''old''
   \<and> truncate_opt (assign (options log0) [Truncate True])
   \<and> get_content (state_of (open_log [Truncate True] log0)) = Inr ''old''
   \<and> get_content (settle (state_of (open_log [Truncate True] log0))) = Inr []
   \<and> \<not> online_p log0_p
   \<and> content_p (state_of (open_p truncate_false log0_p)) = Inr ''old''
   \<and> content_p (settle_p (state_of (open_p truncate_false log0_p))) = Inr []"
proof -
  have f: "files (world log0) (get_file log0) = Some ''old''" "stream log0 = None"
    "pending (world log0) = []"
    by (simp_all add: log0_fields world0_def)
  have o: "\<not> truncate_opt (assign (options log0) [Truncate False])"
    "truncate_opt (assign (options log0) [Truncate True])"
    by (simp_all add: assign_def)
  have g: "files (world_p log0_p) (get_file_p log0_p) = Some ''old''"
    "pending (world_p log0_p) = []" "get_file_p log0_p = [''srv'', ''app.log'']"
    by (simp_all add: log0_p_eq get_file_p_def world0_def)
  note t1 = open_close_loses_content [of log0 "''old''" "[Truncate False]" log0_p truncate_false]
  note t2 = open_close_loses_content [of log0 "''old''" "[Truncate True]" log0_p truncate_false]
  have e: "encode (world log0) (decode (world log0) ''old'') = ''old''"
    "encode (world log0) [] = []"
    by (simp_all add: log0_fields world0_def ascii_def)
  have a1: "files (world (state_of (open_log [Truncate False] log0))) (get_file log0) = Some ''old''"
    and a2: "files (world (settle (state_of (and_then (open_log [Truncate False] log0) close))))
       (get_file log0) = Some []"
    and a3: "files (world (settle (state_of (open_log [Truncate False] log0)))) (get_file log0)
       = Some ''old''"
    using t1 f o(1) e(1) by simp_all
  have b1: "files (world (state_of (open_log [Truncate True] log0))) (get_file log0) = Some ''old''"
    and b2: "files (world (settle (state_of (open_log [Truncate True] log0)))) (get_file log0)
       = Some []"
    using t2 f o(2) e(2) by simp_all
  have c1: "files (world_p (state_of (open_p truncate_false log0_p))) (get_file_p log0_p)
       = Some ''old''"
    and c2: "files (world_p (settle_p (state_of (open_p truncate_false log0_p)))) (get_file_p log0_p)
       = Some []"
    using t1 g(1,2) log0_p_fields(2) by simp_all
  have d: "decode (world log0) = ascii" "decode (world_p log0_p) = ascii"
    by (simp_all add: log0_fields world0_def log0_p_eq)
  note fr = open_existing_frame [OF f(1,2)]
  note fp = open_p_existing_frame [OF g(1) log0_p_fields(2)]
  have k1: "get_content (state_of (open_log [Truncate False] log0)) = Inr ''old''"
    using a1 by (rule content_of_files) (simp_all add: fr d)
  have k2: "get_content (settle (state_of (and_then (open_log [Truncate False] log0) close))) = Inr []"
    using a2 by (rule content_of_files) (simp_all add: settle_frame fr close_frame d)
  have k3: "get_content (settle (state_of (open_log [Truncate False] log0))) = Inr ''old''"
    using a3 by (rule content_of_files) (simp_all add: settle_frame fr d)
  have k4: "get_content (state_of (open_log [Truncate True] log0)) = Inr ''old''"
    using b1 by (rule content_of_files) (simp_all add: fr d)
  have k5: "get_content (settle (state_of (open_log [Truncate True] log0))) = Inr []"
    using b2 by (rule content_of_files) (simp_all add: settle_frame fr d)
  have k6: "content_p (state_of (open_p truncate_false log0_p)) = Inr ''old''"
    using c1 by (rule content_p_of_files) (simp_all add: fp d)
  have k7: "content_p (settle_p (state_of (open_p truncate_false log0_p))) = Inr []"
    using c2 by (rule content_p_of_files) (simp_all add: settle_p_frame fp d)
  show ?thesis
    using f o log0_fields(5) log0_p_fields(2) k1 k2 k3 k4 k5 k6 k7 by simp
qed

end
